theory Spec2Isabelle
  imports Complex_Main "HOL-Library.Sublist"
begin

section \<open>The numbers of the source\<close>

text \<open>
  The source is TypeScript; its \<open>number\<close> values are IEEE 754 doubles. A number the
  code computes with is a \<open>jsnum\<close>: a finite value, an infinity or NaN. The two zeros
  are one value here: the code never divides by a value that can be the negative zero
  and has no other way to tell them apart.

  \<open>round_double\<close> is the rounding every arithmetic operation ends with: to the
  nearest number with a 53-bit significand, a tie to the one with the even
  significand, the exponent not below that of the subnormal numbers (the unit in the
  last place is at least \<open>2 powi -1074\<close>), and to an infinity from \<open>2 ^ 1024\<close> on.
\<close>

datatype jsnum = Finite real | PosInfinity | NegInfinity | NaN

definition round_half_even :: "real \<Rightarrow> int" where
  "round_half_even q =
     (if q - real_of_int \<lfloor>q\<rfloor> < 1 / 2 then \<lfloor>q\<rfloor>
      else if q - real_of_int \<lfloor>q\<rfloor> > 1 / 2 then \<lfloor>q\<rfloor> + 1
      else if even \<lfloor>q\<rfloor> then \<lfloor>q\<rfloor>
      else \<lfloor>q\<rfloor> + 1)"

definition ulp_exponent :: "real \<Rightarrow> int" where
  "ulp_exponent x = max \<lfloor>log 2 \<bar>x\<bar>\<rfloor> (- 1022) - 52"

definition round_double :: "real \<Rightarrow> jsnum" where
  "round_double x =
     (if x = 0 then Finite 0
      else if \<bar>real_of_int (round_half_even (x / 2 powi ulp_exponent x)) * 2 powi ulp_exponent x\<bar>
              \<ge> 2 ^ 1024
      then (if x > 0 then PosInfinity else NegInfinity)
      else Finite (real_of_int (round_half_even (x / 2 powi ulp_exponent x))
                     * 2 powi ulp_exponent x))"

text \<open>A decimal literal of the source denotes the double nearest to it.\<close>

definition js_lit :: "real \<Rightarrow> jsnum" where
  "js_lit q = round_double q"

text \<open>
  The operations the classifiers use, with the results IEEE 754 gives for infinities
  and NaN. \<open>js_pow2 x\<close> is \<open>Math.pow(x, 2)\<close>, taken to be the correctly rounded
  square; \<open>js_sqrt\<close> is \<open>Math.sqrt\<close>. A zero divisor is the positive zero.
\<close>

fun js_neg :: "jsnum \<Rightarrow> jsnum" where
  "js_neg (Finite a) = Finite (- a)"
| "js_neg PosInfinity = NegInfinity"
| "js_neg NegInfinity = PosInfinity"
| "js_neg NaN = NaN"

fun js_add :: "jsnum \<Rightarrow> jsnum \<Rightarrow> jsnum" where
  "js_add (Finite a) (Finite b) = round_double (a + b)"
| "js_add NaN y = NaN"
| "js_add x NaN = NaN"
| "js_add PosInfinity NegInfinity = NaN"
| "js_add NegInfinity PosInfinity = NaN"
| "js_add PosInfinity y = PosInfinity"
| "js_add x PosInfinity = PosInfinity"
| "js_add NegInfinity y = NegInfinity"
| "js_add x NegInfinity = NegInfinity"

definition js_sub :: "jsnum \<Rightarrow> jsnum \<Rightarrow> jsnum" where
  "js_sub x y = js_add x (js_neg y)"

fun js_div :: "jsnum \<Rightarrow> jsnum \<Rightarrow> jsnum" where
  "js_div (Finite a) (Finite b) =
     (if b \<noteq> 0 then round_double (a / b)
      else if a > 0 then PosInfinity
      else if a < 0 then NegInfinity
      else NaN)"
| "js_div NaN y = NaN"
| "js_div x NaN = NaN"
| "js_div (Finite a) y = Finite 0"
| "js_div PosInfinity (Finite b) = (if b \<ge> 0 then PosInfinity else NegInfinity)"
| "js_div NegInfinity (Finite b) = (if b \<ge> 0 then NegInfinity else PosInfinity)"
| "js_div x y = NaN"

fun js_abs :: "jsnum \<Rightarrow> jsnum" where
  "js_abs (Finite a) = Finite \<bar>a\<bar>"
| "js_abs PosInfinity = PosInfinity"
| "js_abs NegInfinity = PosInfinity"
| "js_abs NaN = NaN"

fun js_pow2 :: "jsnum \<Rightarrow> jsnum" where
  "js_pow2 (Finite a) = round_double (a * a)"
| "js_pow2 PosInfinity = PosInfinity"
| "js_pow2 NegInfinity = PosInfinity"
| "js_pow2 NaN = NaN"

fun js_sqrt :: "jsnum \<Rightarrow> jsnum" where
  "js_sqrt (Finite a) = (if a < 0 then NaN else round_double (sqrt a))"
| "js_sqrt PosInfinity = PosInfinity"
| "js_sqrt NegInfinity = NaN"
| "js_sqrt NaN = NaN"

text \<open>The comparisons: false as soon as one side is NaN.\<close>

fun js_lt :: "jsnum \<Rightarrow> jsnum \<Rightarrow> bool" where
  "js_lt (Finite a) (Finite b) = (a < b)"
| "js_lt NaN y = False"
| "js_lt x NaN = False"
| "js_lt x NegInfinity = False"
| "js_lt PosInfinity y = False"
| "js_lt NegInfinity y = True"
| "js_lt x PosInfinity = True"

definition js_gt :: "jsnum \<Rightarrow> jsnum \<Rightarrow> bool" where
  "js_gt x y = js_lt y x"

text \<open>
  Numbers the code does no arithmetic with are kept as \<open>real\<close>, the value of a finite
  double: blendshape scores, expression probabilities, the two confidence literals,
  the experience points and durations of tasks; so is the value of \<open>Math.random()\<close>,
  whose one product is rounded where it is computed. The posture score (only ever 100
  minus 30, 20 and 25) is an \<open>int\<close>. Strings are \<open>string\<close>; \<open>s.includes(t)\<close> is
  \<open>sublist t s\<close>.
\<close>

definition str_includes :: "string \<Rightarrow> string \<Rightarrow> bool" where
  "str_includes s t = sublist t s"

section \<open>lightweightPoseDetection.ts: analyzePosture\<close>

text \<open>
  A keypoint of the pose-detection library: coordinates and an optional name. A pose
  holds its keypoint array. The argument of \<open>analyzePosture\<close> is the pose array, or
  \<open>None\<close> for the null that \<open>detectPose\<close> can return (the source tests \<open>!poses\<close>).
\<close>

record Keypoint =
  kp_x :: jsnum
  kp_y :: jsnum
  kp_name :: "string option"

record Pose =
  keypoints :: "Keypoint list"

record PostureStatus =
  status :: string
  score :: int
  issues :: "string list"

definition named :: "string \<Rightarrow> Keypoint \<Rightarrow> bool" where
  "named n kp = (kp_name kp = Some n)"

text \<open>
  The three quantities the checks compare, each computed as the source computes it:
  every sum, difference and quotient is rounded to a double. The thresholds 150, 20
  and 30 and the divisor 2 are doubles as written.
\<close>

definition torsoLength :: "Keypoint \<Rightarrow> Keypoint \<Rightarrow> Keypoint \<Rightarrow> Keypoint \<Rightarrow> jsnum" where
  "torsoLength leftShoulder rightShoulder leftHip rightHip =
     (let shoulderMidY = js_div (js_add (kp_y leftShoulder) (kp_y rightShoulder)) (Finite 2);
          hipMidY = js_div (js_add (kp_y leftHip) (kp_y rightHip)) (Finite 2)
      in js_abs (js_sub shoulderMidY hipMidY))"

definition shoulderDiff :: "Keypoint \<Rightarrow> Keypoint \<Rightarrow> jsnum" where
  "shoulderDiff leftShoulder rightShoulder =
     js_abs (js_sub (kp_y leftShoulder) (kp_y rightShoulder))"

definition headForward :: "Keypoint \<Rightarrow> Keypoint \<Rightarrow> Keypoint \<Rightarrow> jsnum" where
  "headForward nose leftShoulder rightShoulder =
     (let shoulderMidX = js_div (js_add (kp_x leftShoulder) (kp_x rightShoulder)) (Finite 2)
      in js_abs (js_sub (kp_x nose) shoulderMidX))"

text \<open>The three checks of the source, in order, each pushing an issue and lowering the score.\<close>

definition checkSlouching ::
  "Keypoint \<Rightarrow> Keypoint \<Rightarrow> Keypoint \<Rightarrow> Keypoint \<Rightarrow> string list \<times> int \<Rightarrow> string list \<times> int" where
  "checkSlouching leftShoulder rightShoulder leftHip rightHip st =
     (case st of (iss, sc) \<Rightarrow>
        if js_lt (torsoLength leftShoulder rightShoulder leftHip rightHip) (Finite 150)
        then (iss @ [''Slouching detected''], sc - 30)
        else (iss, sc))"

definition checkLeaning :: "Keypoint \<Rightarrow> Keypoint \<Rightarrow> string list \<times> int \<Rightarrow> string list \<times> int" where
  "checkLeaning leftShoulder rightShoulder st =
     (case st of (iss, sc) \<Rightarrow>
        if js_gt (shoulderDiff leftShoulder rightShoulder) (Finite 20)
        then (if js_gt (kp_y leftShoulder) (kp_y rightShoulder)
              then (iss @ [''Leaning left''], sc - 20)
              else (iss @ [''Leaning right''], sc - 20))
        else (iss, sc))"

definition checkForwardHead ::
  "Keypoint \<Rightarrow> Keypoint \<Rightarrow> Keypoint \<Rightarrow> string list \<times> int \<Rightarrow> string list \<times> int" where
  "checkForwardHead nose leftShoulder rightShoulder st =
     (case st of (iss, sc) \<Rightarrow>
        if js_gt (headForward nose leftShoulder rightShoulder) (Finite 30)
        then (iss @ [''Forward head posture''], sc - 25)
        else (iss, sc))"

definition determineStatus :: "string list \<Rightarrow> string" where
  "determineStatus iss =
     (if list_ex (\<lambda>i. str_includes i ''Slouching'') iss then ''slouching''
      else if list_ex (\<lambda>i. str_includes i ''Leaning left'') iss then ''leaning_left''
      else if list_ex (\<lambda>i. str_includes i ''Leaning right'') iss then ''leaning_right''
      else if list_ex (\<lambda>i. str_includes i ''Forward head'') iss then ''forward_head''
      else ''good'')"

text \<open>
  The body of \<open>analyzePosture\<close> from the point where the five keypoints are found:
  the checks, the status by precedence, the score with its lower bound.
\<close>

definition analyzeKeypoints ::
  "Keypoint \<Rightarrow> Keypoint \<Rightarrow> Keypoint \<Rightarrow> Keypoint \<Rightarrow> Keypoint \<Rightarrow> PostureStatus" where
  "analyzeKeypoints nose leftShoulder rightShoulder leftHip rightHip =
     (case checkForwardHead nose leftShoulder rightShoulder
             (checkLeaning leftShoulder rightShoulder
               (checkSlouching leftShoulder rightShoulder leftHip rightHip ([], 100)))
      of (iss, sc) \<Rightarrow>
        \<lparr>status = determineStatus iss,
         score = max 0 sc,
         issues = (if length iss > 0 then iss else [])\<rparr>)"

text \<open>The five lookups by name; \<open>None\<close> as soon as one of them finds nothing.\<close>

definition requiredKeypoints ::
  "Pose \<Rightarrow> (Keypoint \<times> Keypoint \<times> Keypoint \<times> Keypoint \<times> Keypoint) option" where
  "requiredKeypoints pose =
     (case (find (named ''nose'') (keypoints pose),
            find (named ''left_shoulder'') (keypoints pose),
            find (named ''right_shoulder'') (keypoints pose),
            find (named ''left_hip'') (keypoints pose),
            find (named ''right_hip'') (keypoints pose))
      of (Some nose, Some leftShoulder, Some rightShoulder, Some leftHip, Some rightHip) \<Rightarrow>
           Some (nose, leftShoulder, rightShoulder, leftHip, rightHip)
       | _ \<Rightarrow> None)"

definition analyzePosture :: "Pose list option \<Rightarrow> PostureStatus" where
  "analyzePosture poses =
     (case poses of
        None \<Rightarrow> \<lparr>status = ''good'', score = 0, issues = [''No pose detected'']\<rparr>
      | Some [] \<Rightarrow> \<lparr>status = ''good'', score = 0, issues = [''No pose detected'']\<rparr>
      | Some (pose # _) \<Rightarrow>
          (case requiredKeypoints pose of
             None \<Rightarrow>
               \<lparr>status = ''good'', score = 0, issues = [''Insufficient keypoints detected'']\<rparr>
           | Some (nose, leftShoulder, rightShoulder, leftHip, rightHip) \<Rightarrow>
               analyzeKeypoints nose leftShoulder rightShoulder leftHip rightHip))"

section \<open>faceDetection.ts: detectSmile, classifyMood, generateEncouragement, analyzeMood\<close>

record FaceLandmark =
  lm_x :: jsnum
  lm_y :: jsnum
  lm_z :: jsnum

text \<open>Reading an array at an index: \<open>undefined\<close> (here \<open>None\<close>) out of range.\<close>

definition at_index :: "'a list \<Rightarrow> nat \<Rightarrow> 'a option" where
  "at_index xs i = (if i < length xs then Some (xs ! i) else None)"

text \<open>
  The landmark array may be null or undefined (\<open>None\<close>): the source tests
  \<open>!landmarks\<close>. With at least 468 landmarks every index read below is in range.
  The distances and the ratio are computed in double arithmetic; with closed lips the
  mouth height is 0 and the ratio is Infinity, or NaN for a mouth of width 0. The
  literal 3.5 is a double, 0.05 denotes the double nearest to it.
\<close>

definition detectSmile :: "FaceLandmark list option \<Rightarrow> bool" where
  "detectSmile landmarks =
     (case landmarks of
        None \<Rightarrow> False
      | Some lms \<Rightarrow>
          if length lms < 468 then False
          else
            (let leftMouthCorner = lms ! 61;
                 rightMouthCorner = lms ! 291;
                 upperLipCenter = lms ! 13;
                 lowerLipCenter = lms ! 14;
                 noseTip = lms ! 1;
                 mouthWidth = js_sqrt (js_add
                     (js_pow2 (js_sub (lm_x rightMouthCorner) (lm_x leftMouthCorner)))
                     (js_pow2 (js_sub (lm_y rightMouthCorner) (lm_y leftMouthCorner))));
                 mouthHeight = js_sqrt (js_add
                     (js_pow2 (js_sub (lm_x upperLipCenter) (lm_x lowerLipCenter)))
                     (js_pow2 (js_sub (lm_y upperLipCenter) (lm_y lowerLipCenter))));
                 mouthCenterY = js_div (js_add (lm_y leftMouthCorner) (lm_y rightMouthCorner))
                                  (Finite 2);
                 mouthCornerElevation = js_sub (lm_y noseTip) mouthCenterY;
                 widthToHeightRatio = js_div mouthWidth mouthHeight
             in js_gt widthToHeightRatio (js_lit 3.5) \<and>
                js_gt mouthCornerElevation (js_lit 0.05)))"

text \<open>
  The \<open>blendshapes\<close> argument has type \<open>any\<close>. It is modelled as absent or an array of
  classification objects; an object without a \<open>categories\<close> array makes
  \<open>shapes.length\<close> throw a TypeError, the one exception of \<open>classifyMood\<close>.
\<close>

record Category =
  categoryName :: string
  cat_score :: real

record Classifications =
  categories :: "Category list option"

datatype js_exception = TypeError

text \<open>The loop over the shapes, with its early exit once both scores are positive.\<close>

fun scanShapes :: "Category list \<Rightarrow> real \<Rightarrow> real \<Rightarrow> real \<times> real" where
  "scanShapes [] smileScore frownScore = (smileScore, frownScore)"
| "scanShapes (shape # rest) smileScore frownScore =
     (let smileScore' = (if categoryName shape = ''mouthSmile'' then cat_score shape
                         else smileScore);
          frownScore' = (if categoryName shape = ''mouthSmile'' then frownScore
                         else if categoryName shape = ''mouthFrown'' then cat_score shape
                         else frownScore)
      in if smileScore' > 0 \<and> frownScore' > 0 then (smileScore', frownScore')
         else scanShapes rest smileScore' frownScore')"

text \<open>
  The blendshape block: a label it returns, or \<open>None\<close> when control falls through. A
  score is compared with the literal 0.3, the double nearest to it.
\<close>

definition blendshapeMood :: "Classifications list option \<Rightarrow> js_exception + string option" where
  "blendshapeMood blendshapes =
     (case blendshapes of
        None \<Rightarrow> Inr None
      | Some [] \<Rightarrow> Inr None
      | Some (first # _) \<Rightarrow>
          (case categories first of
             None \<Rightarrow> Inl TypeError
           | Some shapes \<Rightarrow>
               (case scanShapes shapes 0 0 of (smileScore, frownScore) \<Rightarrow>
                  if js_gt (Finite smileScore) (js_lit 0.3) then Inr (Some ''Happy'')
                  else if js_gt (Finite frownScore) (js_lit 0.3) then Inr (Some ''Sad'')
                  else Inr None)))"

text \<open>
  The two quantities of the eyebrow check, in double arithmetic as the source computes
  them. The literals 0.3 and 0.4 they are compared with denote the doubles nearest to
  them.
\<close>

definition faceHeight :: "FaceLandmark \<Rightarrow> FaceLandmark \<Rightarrow> jsnum" where
  "faceHeight noseTip chin = js_abs (js_sub (lm_y noseTip) (lm_y chin))"

definition eyebrowRatio :: "FaceLandmark \<Rightarrow> FaceLandmark \<Rightarrow> FaceLandmark \<Rightarrow> FaceLandmark \<Rightarrow> jsnum" where
  "eyebrowRatio leftEyebrow rightEyebrow noseTip chin =
     (let eyebrowHeight = js_div (js_add (lm_y leftEyebrow) (lm_y rightEyebrow)) (Finite 2)
      in js_div (js_sub (lm_y noseTip) eyebrowHeight) (faceHeight noseTip chin))"

text \<open>The landmark block that follows the blendshape block.\<close>

definition landmarkMood :: "FaceLandmark list \<Rightarrow> bool \<Rightarrow> string" where
  "landmarkMood lms isSmiling =
     (if isSmiling then ''Happy''
      else if length lms \<ge> 300 then
        (case (at_index lms 70, at_index lms 300, at_index lms 1, at_index lms 152) of
           (Some leftEyebrow, Some rightEyebrow, Some noseTip, Some chin) \<Rightarrow>
             if js_gt (faceHeight noseTip chin) (Finite 0) then
               (if js_lt (eyebrowRatio leftEyebrow rightEyebrow noseTip chin) (js_lit 0.3)
                then ''Stressed''
                else if js_lt (eyebrowRatio leftEyebrow rightEyebrow noseTip chin) (js_lit 0.4)
                then ''Sad''
                else ''Neutral'')
             else ''Neutral''
         | _ \<Rightarrow> ''Neutral'')
      else ''Neutral'')"

definition classifyMood ::
  "FaceLandmark list option \<Rightarrow> Classifications list option \<Rightarrow> js_exception + string" where
  "classifyMood landmarks blendshapes =
     (case landmarks of
        None \<Rightarrow> Inr ''Analyzing...''
      | Some lms \<Rightarrow>
          if length lms < 10 then Inr ''Analyzing...''
          else
            (let isSmiling = detectSmile landmarks
             in case blendshapeMood blendshapes of
                  Inl e \<Rightarrow> Inl e
                | Inr (Some mood) \<Rightarrow> Inr mood
                | Inr None \<Rightarrow> Inr (landmarkMood lms isSmiling)))"

text \<open>
  The message pools of \<open>generateEncouragement\<close>. Each message is written without
  the pictograph it starts with in the source. The value of \<open>Math.random()\<close> is
  the argument \<open>rnd\<close>, a double in the interval from 0 (included) to 1 (excluded); its
  product with the pool's length is rounded to a double before \<open>Math.floor\<close>.
\<close>

definition happyPool :: "string list" where
  "happyPool =
     [''Amazing! Your smile is beautiful! Keep that positive energy flowing!'',
      ''You're glowing! That smile looks great on you!'',
      ''Wonderful! Your happiness is contagious!'',
      ''Perfect! You're radiating positive vibes!'']"

definition neutralPool :: "string list" where
  "neutralPool =
     [''Try giving us a smile! Even a forced smile releases endorphins!'',
      ''Come on, you can do it! A smile can change your whole mood!'',
      ''Let's see that smile! Your brain will thank you for it!'',
      ''Smile for me! It's scientifically proven to boost your mood!'']"

definition sadPool :: "string list" where
  "sadPool =
     [''I know it might be hard, but try smiling! It really helps!'',
      ''Even a small smile can make a difference. You've got this!'',
      ''Smiling releases serotonin - give it a try, even if you don't feel like it!'',
      ''Your smile matters! Let's turn that frown upside down!'']"

definition stressedPool :: "string list" where
  "stressedPool =
     [''Take a deep breath and smile! It'll help reduce stress hormones!'',
      ''Relax those facial muscles and smile! You're doing great!'',
      ''A smile can lower cortisol levels. Give it a try!'',
      ''Let go of that tension with a smile! You deserve to feel better!'']"

definition analyzingPool :: "string list" where
  "analyzingPool =
     [''Looking at your expression...'',
      ''Analyzing your mood...'',
      ''Just a moment, reading your face...'']"

definition encouragements :: "string \<Rightarrow> string list option" where
  "encouragements m =
     (if m = ''Happy'' then Some happyPool
      else if m = ''Neutral'' then Some neutralPool
      else if m = ''Sad'' then Some sadPool
      else if m = ''Stressed'' then Some stressedPool
      else if m = ''Analyzing...'' then Some analyzingPool
      else None)"

definition generateEncouragement :: "real \<Rightarrow> string \<Rightarrow> string option" where
  "generateEncouragement rnd m =
     (let messages = (case encouragements m of
                        Some pool \<Rightarrow> pool
                      | None \<Rightarrow> neutralPool)
      in case round_double (rnd * real (length messages)) of
           Finite a \<Rightarrow> at_index messages (nat \<lfloor>a\<rfloor>)
         | _ \<Rightarrow> None)"

record MoodResult =
  mood :: string
  confidence :: real
  isSmiling :: bool
  encouragement :: "string option"

text \<open>\<open>analyzeMood\<close> reads \<open>landmarks.length\<close> unguarded: a TypeError on null.\<close>

definition analyzeMood ::
  "real \<Rightarrow> FaceLandmark list option \<Rightarrow> Classifications list option \<Rightarrow> js_exception + MoodResult" where
  "analyzeMood rnd landmarks blendshapes =
     (case classifyMood landmarks blendshapes of
        Inl e \<Rightarrow> Inl e
      | Inr m \<Rightarrow>
          (case landmarks of
             None \<Rightarrow> Inl TypeError
           | Some lms \<Rightarrow>
               Inr \<lparr>mood = m,
                    confidence = (if length lms \<ge> 468 then 0.85 else 0.5),
                    isSmiling = detectSmile landmarks,
                    encouragement = generateEncouragement rnd m\<rparr>))"

section \<open>lightweightFaceDetection.ts: detectEmotion\<close>

text \<open>
  The expression probabilities of face-api.js, with the seven fields of its
  \<open>FaceExpressions\<close> class in the order \<open>Object.entries\<close> lists them.
\<close>

record FaceExpressions =
  neutral :: real
  happy :: real
  sad :: real
  angry :: real
  fearful :: real
  disgusted :: real
  surprised :: real

definition entries :: "FaceExpressions \<Rightarrow> (string \<times> real) list" where
  "entries e =
     [(''neutral'', neutral e), (''happy'', happy e), (''sad'', sad e), (''angry'', angry e),
      (''fearful'', fearful e), (''disgusted'', disgusted e), (''surprised'', surprised e)]"

fun maxEntry :: "(string \<times> real) list \<Rightarrow> string \<Rightarrow> real \<Rightarrow> string \<times> real" where
  "maxEntry [] maxExpression maxProbability = (maxExpression, maxProbability)"
| "maxEntry ((expression, probability) # rest) maxExpression maxProbability =
     (if probability > maxProbability then maxEntry rest expression probability
      else maxEntry rest maxExpression maxProbability)"

definition emotionMap :: "string \<Rightarrow> string option" where
  "emotionMap = map_of
     [(''happy'', ''Happy''), (''sad'', ''Sad''), (''angry'', ''Angry''),
      (''neutral'', ''Neutral''), (''surprised'', ''Surprised''),
      (''disgusted'', ''Stressed''), (''fearful'', ''Stressed'')]"

record EmotionResult =
  expression :: string
  probability :: real

text \<open>
  What the awaited face-api.js detection gives: it rejects, it finds no face, or it
  returns the expressions of a face. \<open>detectEmotion\<close> answers null (\<open>None\<close>) in the
  first two cases.
\<close>

datatype detection = DetectionRejected | NoFace | Face FaceExpressions

definition detectEmotion :: "detection \<Rightarrow> EmotionResult option" where
  "detectEmotion detections =
     (case detections of
        DetectionRejected \<Rightarrow> None
      | NoFace \<Rightarrow> None
      | Face expressions \<Rightarrow>
          (case maxEntry (entries expressions) ''neutral'' (neutral expressions) of
             (maxExpression, maxProbability) \<Rightarrow>
               Some \<lparr>expression = (case emotionMap maxExpression of
                                      Some e \<Rightarrow> e
                                    | None \<Rightarrow> ''Neutral''),
                     probability = maxProbability\<rparr>))"

section \<open>CameraTools.tsx: the rolling history\<close>

record HistoryEntry =
  time :: string
  label :: string
  entry_type :: string
  suggestion :: "string option"

text \<open>\<open>prev.slice(-k)\<close>: the last \<open>k\<close> elements, or all of them when there are fewer.\<close>

definition slice_last :: "nat \<Rightarrow> 'a list \<Rightarrow> 'a list" where
  "slice_last k xs = drop (length xs - k) xs"

text \<open>
  The updater both detection loops hand to \<open>setHistory\<close>. \<open>lastEntry\<close> is
  \<open>prev[prev.length - 1]\<close>, undefined for the empty history.
\<close>

definition pushHistory :: "HistoryEntry \<Rightarrow> HistoryEntry list \<Rightarrow> HistoryEntry list" where
  "pushHistory entry prev =
     (case at_index prev (length prev - 1) of
        None \<Rightarrow> slice_last 19 prev @ [entry]
      | Some lastEntry \<Rightarrow>
          if time lastEntry \<noteq> time entry \<or> label lastEntry \<noteq> label entry
          then slice_last 19 prev @ [entry]
          else prev)"

text \<open>The suggestion texts, again without their leading pictographs.\<close>

definition moodSuggestion :: "string \<Rightarrow> string" where
  "moodSuggestion expr =
     (if expr = ''Sad'' \<or> expr = ''Stressed'' then ''Take a deep breath, try a quick stretch''
      else if expr = ''Happy'' then ''Great mood! Keep it up!''
      else ''Neutral mood detected'')"

definition postureSuggestion :: "string list \<Rightarrow> string" where
  "postureSuggestion iss =
     (if length iss > 0 then
        (if list_ex (\<lambda>i. str_includes i ''Slouching'') iss
         then ''Sit up straight, align your back''
         else if list_ex (\<lambda>i. str_includes i ''Leaning'') iss
         then ''Move your shoulders up and level them''
         else if list_ex (\<lambda>i. str_includes i ''Forward head'') iss
         then ''Pull your head back, align with shoulders''
         else [])
      else ''Great! Keep maintaining this posture'')"

text \<open>
  The component state the history depends on, and the events that change it: a frame
  of either loop with the clock string and the detector's answer, and the two buttons.
  \<open>startAnalysis\<close> returns early, leaving the history alone, when the models fail
  to load or the webcam has no video.
\<close>

record CameraState =
  isAnalyzing :: bool
  isModelLoaded :: bool
  history :: "HistoryEntry list"

definition initialCameraState :: CameraState where
  "initialCameraState = \<lparr>isAnalyzing = False, isModelLoaded = False, history = []\<rparr>"

definition analyzeMoodFrame :: "string \<Rightarrow> detection \<Rightarrow> CameraState \<Rightarrow> CameraState" where
  "analyzeMoodFrame currentTime detections s =
     (case detectEmotion detections of
        None \<Rightarrow> s
      | Some emotionResult \<Rightarrow>
          s\<lparr>history :=
              pushHistory \<lparr>time = currentTime, label = expression emotionResult,
                            entry_type = ''mood'',
                            suggestion = Some (moodSuggestion (expression emotionResult))\<rparr>
                          (history s)\<rparr>)"

definition analyzePostureFrame :: "string \<Rightarrow> Pose list option \<Rightarrow> CameraState \<Rightarrow> CameraState" where
  "analyzePostureFrame currentTime poses s =
     (case poses of
        None \<Rightarrow> s
      | Some [] \<Rightarrow> s
      | Some (_ # _) \<Rightarrow>
          (let postureStatus = analyzePosture poses
           in s\<lparr>history :=
                  pushHistory \<lparr>time = currentTime, label = status postureStatus,
                                entry_type = ''posture'',
                                suggestion = Some (postureSuggestion (issues postureStatus))\<rparr>
                              (history s)\<rparr>))"

definition startAnalysis :: "bool \<Rightarrow> bool \<Rightarrow> CameraState \<Rightarrow> CameraState" where
  "startAnalysis modelsLoad webcamReady s =
     (if \<not> isModelLoaded s \<and> \<not> modelsLoad then s
      else
        (let s1 = (if \<not> isModelLoaded s then s\<lparr>isModelLoaded := True\<rparr> else s)
         in if \<not> webcamReady then s1
            else s1\<lparr>isAnalyzing := True, history := []\<rparr>))"

definition stopAnalysis :: "CameraState \<Rightarrow> CameraState" where
  "stopAnalysis s = s\<lparr>isAnalyzing := False\<rparr>"

datatype CameraEvent =
    StartAnalysis bool bool
  | StopAnalysis
  | MoodFrame string detection
  | PostureFrame string "Pose list option"

fun cameraStep :: "CameraState \<Rightarrow> CameraEvent \<Rightarrow> CameraState" where
  "cameraStep s (StartAnalysis modelsLoad webcamReady) = startAnalysis modelsLoad webcamReady s"
| "cameraStep s StopAnalysis = stopAnalysis s"
| "cameraStep s (MoodFrame currentTime detections) = analyzeMoodFrame currentTime detections s"
| "cameraStep s (PostureFrame currentTime poses) = analyzePostureFrame currentTime poses s"

definition cameraRun :: "CameraEvent list \<Rightarrow> CameraState" where
  "cameraRun evs = foldl cameraStep initialCameraState evs"

section \<open>shared/taskSchema.ts: the task schemas\<close>

text \<open>
  Times are milliseconds since the epoch.

  A validation failure of Zod is a \<open>ZodError\<close> holding the list of all the issues
  found, in the order of the schema's fields and, within a field, of its checks. An
  issue is modelled by its path (the field's name), its code, and the message the
  schema gives for the check that failed, if it gives one (\<open>taskSchema.ts\<close> gives one
  only: \<open>Title is required\<close>). The \<open>message\<close> property of a ZodError is the JSON
  text of the issue list. Any other thrown value is modelled by the one property the
  handlers read, its \<open>message\<close> (absent for a thrown value without one).
\<close>

type_synonym timestamp = nat

datatype zod_code = invalid_type | too_small | too_big | invalid_date

record zod_issue =
  issue_path :: string
  issue_code :: zod_code
  issue_message :: "string option"

datatype js_error = Thrown "string option" | ZodError "zod_issue list"

definition is_int :: "real \<Rightarrow> bool" where
  "is_int r = (real_of_int \<lfloor>r\<rfloor> = r)"

text \<open>
  The checks of the fields. A required field that is missing is an \<open>invalid_type\<close>
  issue; \<open>.min\<close> and \<open>.positive\<close> fail with \<open>too_small\<close>, \<open>.max\<close> with \<open>too_big\<close>,
  \<open>.int\<close> with \<open>invalid_type\<close>, \<open>z.date()\<close> on an invalid Date with \<open>invalid_date\<close>.
  Every check of a field runs, also after one of them has failed.
\<close>

definition issue :: "string \<Rightarrow> zod_code \<Rightarrow> zod_issue" where
  "issue path code = \<lparr>issue_path = path, issue_code = code, issue_message = None\<rparr>"

definition optionalIssues :: "('a \<Rightarrow> zod_issue list) \<Rightarrow> 'a option \<Rightarrow> zod_issue list" where
  "optionalIssues check field = (case field of None \<Rightarrow> [] | Some v \<Rightarrow> check v)"

definition insertTitleIssues :: "string option \<Rightarrow> zod_issue list" where
  "insertTitleIssues field =
     (case field of
        None \<Rightarrow> [issue ''title'' invalid_type]
      | Some t \<Rightarrow>
          (if length t < 1
           then [\<lparr>issue_path = ''title'', issue_code = too_small,
                  issue_message = Some ''Title is required''\<rparr>]
           else []) @
          (if length t > 200 then [issue ''title'' too_big] else []))"

definition updateTitleIssues :: "string \<Rightarrow> zod_issue list" where
  "updateTitleIssues t =
     (if length t < 1 then [issue ''title'' too_small] else []) @
     (if length t > 200 then [issue ''title'' too_big] else [])"

definition durationIssues :: "real \<Rightarrow> zod_issue list" where
  "durationIssues d =
     (if \<not> is_int d then [issue ''duration'' invalid_type] else []) @
     (if d \<le> 0 then [issue ''duration'' too_small] else [])"

definition xpRewardIssues :: "real \<Rightarrow> zod_issue list" where
  "xpRewardIssues x =
     (if \<not> is_int x then [issue ''xpReward'' invalid_type] else []) @
     (if x < 10 then [issue ''xpReward'' too_small] else []) @
     (if x > 500 then [issue ''xpReward'' too_big] else [])"

text \<open>
  The object handed to \<open>insertTaskSchema.parse\<close>, by field: a field is \<open>None\<close> when
  it is missing. \<open>in_scheduledTime\<close> is the Date the callers build with \<open>new Date\<close>:
  \<open>None\<close> for an invalid Date. The result has \<open>xpReward\<close> defaulted to 50.
\<close>

record InsertInput =
  in_title :: "string option"
  in_description :: "string option"
  in_scheduledTime :: "timestamp option"
  in_duration :: "real option"
  in_xpReward :: "real option"

record InsertTask =
  v_title :: string
  v_description :: "string option"
  v_scheduledTime :: timestamp
  v_duration :: "real option"
  v_xpReward :: real

definition insertTaskIssues :: "InsertInput \<Rightarrow> zod_issue list" where
  "insertTaskIssues inp =
     insertTitleIssues (in_title inp) @
     (case in_scheduledTime inp of
        None \<Rightarrow> [issue ''scheduledTime'' invalid_date]
      | Some st \<Rightarrow> []) @
     optionalIssues durationIssues (in_duration inp) @
     xpRewardIssues (case in_xpReward inp of None \<Rightarrow> 50 | Some x \<Rightarrow> x)"

definition insertTaskSchema_parse :: "InsertInput \<Rightarrow> js_error + InsertTask" where
  "insertTaskSchema_parse inp =
     (case (insertTaskIssues inp, in_title inp, in_scheduledTime inp) of
        ([], Some t, Some st) \<Rightarrow>
          Inr \<lparr>v_title = t, v_description = in_description inp,
               v_scheduledTime = st, v_duration = in_duration inp,
               v_xpReward = (case in_xpReward inp of None \<Rightarrow> 50 | Some x \<Rightarrow> x)\<rparr>
      | _ \<Rightarrow> Inl (ZodError (insertTaskIssues inp)))"

text \<open>
  The body of the update request, as \<open>express.json\<close> parsed it: a field is \<open>None\<close>
  when it is missing. JSON has no dates, so a \<open>scheduledTime\<close> that is present is a
  string (or another JSON value) and \<open>z.date()\<close> refuses it with an \<open>invalid_type\<close>
  issue. The validated data can therefore hold no \<open>scheduledTime\<close>; its field is kept
  because the handler reads it.
\<close>

record UpdateInput =
  up_title :: "string option"
  up_description :: "string option"
  up_scheduledTime :: "string option"
  up_duration :: "real option"
  up_completed :: "bool option"
  up_xpReward :: "real option"

record UpdateTask =
  ut_title :: "string option"
  ut_description :: "string option"
  ut_scheduledTime :: "timestamp option"
  ut_duration :: "real option"
  ut_completed :: "bool option"
  ut_xpReward :: "real option"

definition updateTaskIssues :: "UpdateInput \<Rightarrow> zod_issue list" where
  "updateTaskIssues upd =
     optionalIssues updateTitleIssues (up_title upd) @
     (case up_scheduledTime upd of
        None \<Rightarrow> []
      | Some jsonValue \<Rightarrow> [issue ''scheduledTime'' invalid_type]) @
     optionalIssues durationIssues (up_duration upd) @
     optionalIssues xpRewardIssues (up_xpReward upd)"

definition updateTaskSchema_parse :: "UpdateInput \<Rightarrow> js_error + UpdateTask" where
  "updateTaskSchema_parse upd =
     (case updateTaskIssues upd of
        [] \<Rightarrow>
          Inr \<lparr>ut_title = up_title upd, ut_description = up_description upd,
               ut_scheduledTime = None, ut_duration = up_duration upd,
               ut_completed = up_completed upd, ut_xpReward = up_xpReward upd\<rparr>
      | _ \<Rightarrow> Inl (ZodError (updateTaskIssues upd)))"

section \<open>server/routes.ts: the task store and the handlers' effects\<close>

text \<open>
  A document of the \<open>tasks\<close> collection, with the fields the handlers write.
  \<open>category\<close> and \<open>autoGenerated\<close> are written by the weekly planner only.
\<close>

record TaskDoc =
  userId :: string
  title :: string
  description :: "string option"
  scheduledTime :: timestamp
  duration :: "real option"
  xpReward :: "real option"
  category :: "string option"
  autoGenerated :: bool
  completed :: bool
  notificationSent :: bool
  createdAt :: timestamp
  updatedAt :: timestamp

text \<open>
  What a handler runs against: the collection (documents by id, in insertion order),
  the wall clock as the sequence of its readings (\<open>ticks\<close> counts the readings
  taken), and the behaviour of Firestore as a sequence too: \<open>faults\<close> says whether the
  n-th Firestore call rejects, \<open>newIds\<close> the document id it generates when it is an
  \<open>addDoc\<close>; \<open>calls\<close> counts the calls made.
\<close>

record world =
  tasks :: "(string \<times> TaskDoc) list"
  clock :: "nat \<Rightarrow> timestamp"
  ticks :: nat
  faults :: "nat \<Rightarrow> js_error option"
  newIds :: "nat \<Rightarrow> string"
  calls :: nat

text \<open>
  A handler's code is a function from the world to a result or a thrown value, and the
  world after it: a write made before a throw stays made.
\<close>

type_synonym 'a action = "world \<Rightarrow> (js_error + 'a) \<times> world"

definition returnE :: "'a \<Rightarrow> 'a action" where
  "returnE a w = (Inr a, w)"

definition throwE :: "js_error \<Rightarrow> 'a action" where
  "throwE e w = (Inl e, w)"

definition liftE :: "js_error + 'a \<Rightarrow> 'a action" where
  "liftE r w = (r, w)"

definition bindE :: "'a action \<Rightarrow> ('a \<Rightarrow> 'b action) \<Rightarrow> 'b action" where
  "bindE m f w = (case m w of (Inl e, w') \<Rightarrow> (Inl e, w') | (Inr a, w') \<Rightarrow> f a w')"

definition tryCatch :: "'a action \<Rightarrow> (js_error \<Rightarrow> 'a action) \<Rightarrow> 'a action" where
  "tryCatch m h w = (case m w of (Inl e, w') \<Rightarrow> h e w' | (Inr a, w') \<Rightarrow> (Inr a, w'))"

definition timestampNow :: "timestamp action" where
  "timestampNow w = (Inr (clock w (ticks w)), w\<lparr>ticks := ticks w + 1\<rparr>)"

definition firestoreCall :: "(nat \<Rightarrow> 'a action) \<Rightarrow> 'a action" where
  "firestoreCall run w =
     (case faults w (calls w) of
        Some e \<Rightarrow> (Inl e, w\<lparr>calls := calls w + 1\<rparr>)
      | None \<Rightarrow> run (calls w) (w\<lparr>calls := calls w + 1\<rparr>))"


definition getDoc :: "string \<Rightarrow> TaskDoc option action" where
  "getDoc docId = firestoreCall (\<lambda>n w. (Inr (map_of (tasks w) docId), w))"

definition addDoc :: "TaskDoc \<Rightarrow> string action" where
  "addDoc d = firestoreCall (\<lambda>n w. (Inr (newIds w n), w\<lparr>tasks := tasks w @ [(newIds w n, d)]\<rparr>))"

text \<open>\<open>updateDoc\<close> rejects when the document does not exist; \<open>deleteDoc\<close> does not.\<close>

definition updateDoc :: "string \<Rightarrow> (TaskDoc \<Rightarrow> TaskDoc) \<Rightarrow> unit action" where
  "updateDoc docId f =
     firestoreCall (\<lambda>n w.
       case map_of (tasks w) docId of
         None \<Rightarrow> (Inl (Thrown (Some ''No document to update'')), w)
       | Some _ \<Rightarrow>
           (Inr (), w\<lparr>tasks := map (\<lambda>(k, d). if k = docId then (k, f d) else (k, d)) (tasks w)\<rparr>))"


text \<open>Reading the user's document (its content only feeds the prompt text).\<close>

definition getUser :: "string \<Rightarrow> unit action" where
  "getUser uid = firestoreCall (\<lambda>n w. (Inr (), w))"

text \<open>
  The responses: the status code (200 unless \<open>res.status\<close> sets it) and the JSON body.
  \<open>ErrorBody t\<close> is the payload whose \<open>error\<close> is the text \<open>t\<close>; \<open>IssuesBody l\<close> is the
  payload whose \<open>error\<close> is the JSON text of the issue list \<open>l\<close>, the message of a
  ZodError.
\<close>

datatype body =
    ErrorBody string
  | IssuesBody "zod_issue list"
  | ChatErrorBody string string
  | TasksBody "(string \<times> TaskDoc) list"
  | TaskBody string TaskDoc
  | SuccessBody string
  | CompletedBody string real
  | ChatBody string "(string \<times> TaskDoc) option"
  | PlanBody nat "(string \<times> TaskDoc) list"

record response =
  statusCode :: nat
  body :: body

text \<open>JavaScript's \<open>a || b\<close> on an optional string and on an optional number.\<close>

definition str_or :: "string option \<Rightarrow> string \<Rightarrow> string" where
  "str_or a b = (case a of None \<Rightarrow> b | Some s \<Rightarrow> if s = [] then b else s)"

definition num_or :: "real option \<Rightarrow> real \<Rightarrow> real" where
  "num_or a b = (case a of None \<Rightarrow> b | Some v \<Rightarrow> if v = 0 then b else v)"

definition falsy :: "string option \<Rightarrow> bool" where
  "falsy a = (case a of None \<Rightarrow> True | Some s \<Rightarrow> s = [])"

section \<open>server/routes.ts: the handlers\<close>

text \<open>
  Every handler is one try block and its catch block: \<open>xTry\<close> is the try block of the
  handler \<open>xHandler\<close>.

  \<open>{ error: error.message || fallback }\<close>, the payload four of the catch blocks answer
  with. The message of a ZodError is never empty.
\<close>

definition errorBody :: "js_error \<Rightarrow> string \<Rightarrow> body" where
  "errorBody error fallback =
     (case error of
        Thrown msg \<Rightarrow> ErrorBody (str_or msg fallback)
      | ZodError zodIssues \<Rightarrow> IssuesBody zodIssues)"

text \<open>The task object the three validated creation paths build from \<open>validatedData\<close>.\<close>

definition newTaskDoc :: "string \<Rightarrow> InsertTask \<Rightarrow> timestamp \<Rightarrow> TaskDoc" where
  "newTaskDoc uid validatedData now =
     \<lparr>userId = uid,
      title = v_title validatedData,
      description = v_description validatedData,
      scheduledTime = v_scheduledTime validatedData,
      duration = v_duration validatedData,
      xpReward = Some (v_xpReward validatedData),
      category = None,
      autoGenerated = False,
      completed = False,
      notificationSent = False,
      createdAt = now,
      updatedAt = now\<rparr>"

subsection \<open>GET /api/tasks/:userId\<close>



subsection \<open>POST /api/tasks\<close>

text \<open>\<open>syncTaskToCalendar\<close> only logs.\<close>

definition syncTaskToCalendar :: "string \<Rightarrow> string \<Rightarrow> unit action" where
  "syncTaskToCalendar uid taskId = returnE ()"

definition createTaskTry :: "string \<Rightarrow> InsertInput \<Rightarrow> response action" where
  "createTaskTry uid taskData =
     bindE (liftE (insertTaskSchema_parse taskData)) (\<lambda>validatedData.
     bindE timestampNow (\<lambda>now.
     bindE (addDoc (newTaskDoc uid validatedData now)) (\<lambda>docId.
     bindE (tryCatch (syncTaskToCalendar uid docId) (\<lambda>calendarError. returnE ())) (\<lambda>_.
     returnE \<lparr>statusCode = 200,
              body = TaskBody docId (newTaskDoc uid validatedData now)\<rparr>))))"

definition createTaskHandler :: "string \<Rightarrow> InsertInput \<Rightarrow> response action" where
  "createTaskHandler uid taskData =
     tryCatch (createTaskTry uid taskData)
       (\<lambda>error. returnE \<lparr>statusCode = 400,
                          body = errorBody error ''Failed to create task''\<rparr>)"

subsection \<open>PUT /api/tasks/:id\<close>




subsection \<open>DELETE /api/tasks/:id\<close>



subsection \<open>POST /api/tasks/:id/complete\<close>

definition completeTaskTry :: "string \<Rightarrow> response action" where
  "completeTaskTry docId =
     bindE (getDoc docId) (\<lambda>taskSnap.
     case taskSnap of
       None \<Rightarrow> returnE \<lparr>statusCode = 404, body = ErrorBody ''Task not found''\<rparr>
     | Some taskData \<Rightarrow>
         bindE timestampNow (\<lambda>now.
         bindE (updateDoc docId (\<lambda>d. d\<lparr>completed := True, updatedAt := now\<rparr>)) (\<lambda>_.
         returnE \<lparr>statusCode = 200,
                  body = CompletedBody docId (num_or (xpReward taskData) 50)\<rparr>)))"

definition completeTaskHandler :: "string \<Rightarrow> response action" where
  "completeTaskHandler docId =
     tryCatch (completeTaskTry docId)
       (\<lambda>error. returnE \<lparr>statusCode = 500, body = ErrorBody ''Failed to complete task''\<rparr>)"

subsection \<open>The calls to the hosted language model\<close>

text \<open>
  What a call to the model's API gives to the code that awaits it: the fetch rejects,
  the response is not ok, reading its JSON body rejects or the body has no candidate
  list (a TypeError), the candidate has no text, or there is a text. The text is
  represented by what the handler's regular expression and \<open>JSON.parse\<close> make of it.
\<close>

datatype 'a gemini =
    FetchRejected js_error
  | ResponseNotOk
  | BodyRejected js_error
  | NoText
  | Text 'a

datatype 'a extraction =
    NoJsonMatch
  | JsonParseThrows js_error
  | Json 'a

fun geminiText :: "'a gemini \<Rightarrow> js_error + 'a" where
  "geminiText (FetchRejected e) = Inl e"
| "geminiText ResponseNotOk = Inl (Thrown (Some ''Gemini API request failed''))"
| "geminiText (BodyRejected e) = Inl e"
| "geminiText NoText = Inl (Thrown (Some ''No response from AI''))"
| "geminiText (Text t) = Inr t"

fun extractJson :: "'a extraction \<Rightarrow> js_error + 'a" where
  "extractJson NoJsonMatch = Inl (Thrown (Some ''Could not parse AI response''))"
| "extractJson (JsonParseThrows e) = Inl e"
| "extractJson (Json v) = Inr v"

text \<open>
  The task object in the model's JSON. \<open>scheduledTime\<close> is absent (or falsy), or what
  \<open>new Date\<close> makes of it.
\<close>

datatype date_input = Absent | InvalidDate | ValidDate timestamp

record TaskJson =
  tj_title :: "string option"
  tj_description :: "string option"
  tj_scheduledTime :: date_input
  tj_duration :: "real option"
  tj_xpReward :: "real option"

fun newDate :: "date_input \<Rightarrow> timestamp option" where
  "newDate Absent = None"
| "newDate InvalidDate = None"
| "newDate (ValidDate t) = Some t"

subsection \<open>POST /api/ai/parse-task\<close>

definition parseTaskTry ::
  "string option \<Rightarrow> string option \<Rightarrow> TaskJson extraction gemini \<Rightarrow> response action" where
  "parseTaskTry uid prompt geminiResponse =
     (case uid of
        None \<Rightarrow> returnE \<lparr>statusCode = 400, body = ErrorBody ''Missing prompt or userId''\<rparr>
      | Some u \<Rightarrow>
          if falsy prompt \<or> u = []
          then returnE \<lparr>statusCode = 400, body = ErrorBody ''Missing prompt or userId''\<rparr>
          else
            bindE (liftE (geminiText geminiResponse)) (\<lambda>aiText.
            bindE (liftE (extractJson aiText)) (\<lambda>parsedTask.
            bindE (liftE (insertTaskSchema_parse
                     \<lparr>in_title = tj_title parsedTask,
                      in_description = Some (str_or (tj_description parsedTask) []),
                      in_scheduledTime = newDate (tj_scheduledTime parsedTask),
                      in_duration = Some (num_or (tj_duration parsedTask) 30),
                      in_xpReward = Some (num_or (tj_xpReward parsedTask) 50)\<rparr>))
              (\<lambda>validatedData.
            bindE timestampNow (\<lambda>now.
            bindE (addDoc (newTaskDoc u validatedData now)) (\<lambda>docId.
            returnE \<lparr>statusCode = 200,
                     body = TaskBody docId (newTaskDoc u validatedData now)\<rparr>))))))"

definition parseTaskHandler ::
  "string option \<Rightarrow> string option \<Rightarrow> TaskJson extraction gemini \<Rightarrow> response action" where
  "parseTaskHandler uid prompt geminiResponse =
     tryCatch (parseTaskTry uid prompt geminiResponse)
       (\<lambda>error. returnE \<lparr>statusCode = 500,
                          body = errorBody error ''Failed to parse task''\<rparr>)"

subsection \<open>POST /api/chat\<close>

record Detection =
  isTaskRequest :: bool
  taskData :: "TaskJson option"

text \<open>
  The body of the inner try block of the task detection: it runs \<open>JSON.parse\<close>, and
  for a task request with a user id validates and stores the task. Without a
  \<open>scheduledTime\<close> the task is scheduled a day after the clock's reading.
\<close>

definition createDetectedTask ::
  "string option \<Rightarrow> Detection extraction \<Rightarrow> (string \<times> TaskDoc) option action" where
  "createDetectedTask uid jsonMatch =
     bindE (liftE (extractJson jsonMatch)) (\<lambda>taskDetection.
       case (taskData taskDetection, uid) of
         (Some td, Some u) \<Rightarrow>
           if isTaskRequest taskDetection \<and> u \<noteq> [] then
             bindE (case tj_scheduledTime td of
                      Absent \<Rightarrow> bindE timestampNow (\<lambda>t. returnE (Some (t + 24 * 60 * 60 * 1000)))
                    | other \<Rightarrow> returnE (newDate other)) (\<lambda>scheduled.
             bindE (liftE (insertTaskSchema_parse
                      \<lparr>in_title = Some (str_or (tj_title td) ''New Task''),
                       in_description = Some (str_or (tj_description td) []),
                       in_scheduledTime = scheduled,
                       in_duration = Some (num_or (tj_duration td) 30),
                       in_xpReward = Some (num_or (tj_xpReward td) 50)\<rparr>))
               (\<lambda>validatedData.
             bindE timestampNow (\<lambda>now.
             bindE (addDoc (newTaskDoc u validatedData now)) (\<lambda>docId.
             returnE (Some (docId, newTaskDoc u validatedData now))))))
           else returnE None
       | _ \<Rightarrow> returnE None)"

definition detectTask ::
  "string option \<Rightarrow> Detection extraction gemini \<Rightarrow> (string \<times> TaskDoc) option action" where
  "detectTask uid taskDetectionResponse =
     (case taskDetectionResponse of
        FetchRejected e \<Rightarrow> throwE e
      | ResponseNotOk \<Rightarrow> returnE None
      | BodyRejected e \<Rightarrow> throwE e
      | NoText \<Rightarrow> returnE None
      | Text NoJsonMatch \<Rightarrow> returnE None
      | Text jsonMatch \<Rightarrow> tryCatch (createDetectedTask uid jsonMatch) (\<lambda>e. returnE None))"

definition chatTry ::
  "string option \<Rightarrow> string option \<Rightarrow> Detection extraction gemini \<Rightarrow> string gemini
     \<Rightarrow> response action" where
  "chatTry msg uid taskDetectionResponse geminiResponse =
     (if falsy msg
      then returnE \<lparr>statusCode = 400, body = ErrorBody ''Message is required''\<rparr>
      else
        bindE (if falsy uid then returnE ()
               else tryCatch (getUser (str_or uid [])) (\<lambda>e. returnE ())) (\<lambda>_.
        bindE (detectTask uid taskDetectionResponse) (\<lambda>createdTask.
        bindE (liftE (geminiText geminiResponse)) (\<lambda>reply.
        if reply = [] then throwE (Thrown (Some ''No response from AI''))
        else returnE \<lparr>statusCode = 200, body = ChatBody reply createdTask\<rparr>))))"

definition chatHandler ::
  "string option \<Rightarrow> string option \<Rightarrow> Detection extraction gemini \<Rightarrow> string gemini
     \<Rightarrow> response action" where
  "chatHandler msg uid taskDetectionResponse geminiResponse =
     tryCatch (chatTry msg uid taskDetectionResponse geminiResponse)
       (\<lambda>error. returnE
          \<lparr>statusCode = 500,
           body = ChatErrorBody ''Failed to get response''
                    ''I'm having trouble connecting right now. Please try again in a moment!''\<rparr>)"

subsection \<open>POST /api/planner/generate\<close>

text \<open>
  A task of the generated plan. \<open>pt_when\<close> is what computing
  \<open>Timestamp.fromDate(taskDate)\<close> from the day's date and the task's time gives: a
  time, or the value thrown (a task without a time, a date that is not one).
\<close>

record PlanTask =
  pt_title :: string
  pt_description :: "string option"
  pt_when :: "js_error + timestamp"
  pt_duration :: "real option"
  pt_xpReward :: "real option"
  pt_category :: "string option"

record PlanDay =
  pd_tasks :: "PlanTask list"

text \<open>The inner loop: \<open>createdAt\<close> and \<open>updatedAt\<close> are two readings of the clock.\<close>

fun planTasks ::
  "string \<Rightarrow> PlanTask list \<Rightarrow> (string \<times> TaskDoc) list \<Rightarrow> (string \<times> TaskDoc) list action" where
  "planTasks uid [] createdTasks = returnE createdTasks"
| "planTasks uid (task # rest) createdTasks =
     bindE (liftE (pt_when task)) (\<lambda>taskDate.
     bindE timestampNow (\<lambda>created.
     bindE timestampNow (\<lambda>updated.
     bindE (addDoc \<lparr>userId = uid,
                    title = pt_title task,
                    description = pt_description task,
                    scheduledTime = taskDate,
                    duration = pt_duration task,
                    xpReward = pt_xpReward task,
                    category = pt_category task,
                    autoGenerated = True,
                    completed = False,
                    notificationSent = False,
                    createdAt = created,
                    updatedAt = updated\<rparr>) (\<lambda>docId.
     planTasks uid rest
       (createdTasks @
          [(docId, \<lparr>userId = uid,
                    title = pt_title task,
                    description = pt_description task,
                    scheduledTime = taskDate,
                    duration = pt_duration task,
                    xpReward = pt_xpReward task,
                    category = pt_category task,
                    autoGenerated = True,
                    completed = False,
                    notificationSent = False,
                    createdAt = created,
                    updatedAt = updated\<rparr>)])))))"

fun planDays ::
  "string \<Rightarrow> PlanDay list \<Rightarrow> (string \<times> TaskDoc) list \<Rightarrow> (string \<times> TaskDoc) list action" where
  "planDays uid [] createdTasks = returnE createdTasks"
| "planDays uid (dayPlan # rest) createdTasks =
     bindE (planTasks uid (pd_tasks dayPlan) createdTasks) (\<lambda>createdTasks'.
     planDays uid rest createdTasks')"

definition plannerTry :: "string option \<Rightarrow> PlanDay list extraction gemini \<Rightarrow> response action" where
  "plannerTry uid geminiResponse =
     (case uid of
        None \<Rightarrow> returnE \<lparr>statusCode = 400, body = ErrorBody ''User ID required''\<rparr>
      | Some u \<Rightarrow>
          if u = [] then returnE \<lparr>statusCode = 400, body = ErrorBody ''User ID required''\<rparr>
          else
            bindE (tryCatch (getUser u) (\<lambda>e. returnE ())) (\<lambda>_.
            bindE (liftE (geminiText geminiResponse)) (\<lambda>aiText.
            bindE (liftE (extractJson aiText)) (\<lambda>weekPlan.
            bindE (planDays u weekPlan []) (\<lambda>createdTasks.
            returnE \<lparr>statusCode = 200,
                     body = PlanBody (length createdTasks) createdTasks\<rparr>)))))"

definition plannerHandler :: "string option \<Rightarrow> PlanDay list extraction gemini \<Rightarrow> response action" where
  "plannerHandler uid geminiResponse =
     tryCatch (plannerTry uid geminiResponse)
       (\<lambda>error. returnE \<lparr>statusCode = 500,
                          body = errorBody error ''Failed to generate plan''\<rparr>)"

section \<open>What a handler writes\<close>

text \<open>
  A predicate for the proofs about the routes: every document in the collection after
  the action was there before it, or satisfies \<open>P\<close>.
\<close>

definition only_adds :: "(TaskDoc \<Rightarrow> bool) \<Rightarrow> 'a action \<Rightarrow> bool" where
  "only_adds P m = (\<forall>w. \<forall>kd \<in> set (tasks (snd (m w))). kd \<in> set (tasks w) \<or> P (snd kd))"



section \<open>Rounding to double precision\<close>

lemma floor_log2_powi:
  assumes "0 < x" "2 powi k \<le> x" "x < 2 powi (k + 1)"
  shows "\<lfloor>log 2 x\<rfloor> = k"
proof -
  have a: "(2::real) powr real_of_int k = 2 powi k"
    by (rule powr_real_of_int') simp_all
  have b: "(2::real) powr real_of_int (k + 1) = 2 powi (k + 1)"
    by (rule powr_real_of_int') simp_all
  have "(\<lfloor>log 2 x\<rfloor> = k) =
      (2 powr real_of_int k \<le> x \<and> x < 2 powr real_of_int (k + 1))"
    using assms(1) by (intro floor_log_eq_powr_iff) simp_all
  with assms show ?thesis
    unfolding a b by blast
qed

lemma round_half_even_of_int: "round_half_even (real_of_int m) = m"
  by (simp add: round_half_even_def)

lemma round_half_even_bounds:
  "\<lfloor>q\<rfloor> \<le> round_half_even q \<and> round_half_even q \<le> \<lfloor>q\<rfloor> + 1"
  by (simp add: round_half_even_def)

lemma round_half_even_abs:
  assumes "\<bar>q\<bar> \<le> real_of_int m"
  shows "\<bar>round_half_even q\<bar> \<le> m"
proof (cases "q = real_of_int m")
  case True
  with assms show ?thesis by (simp add: round_half_even_of_int)
next
  case False
  from assms have lo: "- real_of_int m \<le> q" and hi: "q \<le> real_of_int m" by linarith+
  from lo have "real_of_int (- m) \<le> q" by simp
  then have 1: "- m \<le> \<lfloor>q\<rfloor>" by (simp only: le_floor_iff)
  from hi False have "q < real_of_int m" by simp
  then have 2: "\<lfloor>q\<rfloor> < m" by (simp only: floor_less_iff)
  from 1 2 round_half_even_bounds [of q] show ?thesis by linarith
qed

lemma round_double_eval:
  assumes lo: "2 powi k \<le> \<bar>x\<bar>" and hi: "\<bar>x\<bar> < 2 powi (k + 1)"
    and "- 1022 \<le> k" and "k \<le> 1022"
  shows "round_double x =
     Finite (real_of_int (round_half_even (x / 2 powi (k - 52))) * 2 powi (k - 52))"
proof -
  have pos: "0 < \<bar>x\<bar>"
    using lo by (smt (verit) zero_less_power_int)
  then have x0: "x \<noteq> 0" by simp
  have fl: "\<lfloor>log 2 \<bar>x\<bar>\<rfloor> = k"
    using pos lo hi by (rule floor_log2_powi)
  have ue: "ulp_exponent x = k - 52"
    using \<open>- 1022 \<le> k\<close> by (simp add: ulp_exponent_def fl)
  let ?u = "(2::real) powi (k - 52)"
  let ?n = "round_half_even (x / ?u)"
  have upos: "0 < ?u" by simp
  have "\<bar>x / ?u\<bar> = \<bar>x\<bar> / ?u" by simp
  also have "\<dots> \<le> 2 powi (k + 1) / ?u"
    using hi upos by (intro divide_right_mono) simp_all
  also have "\<dots> = 2 powi ((k + 1) - (k - 52))"
    by (rule power_int_diff [symmetric]) simp
  also have "(k + 1) - (k - 52) = 53"
    by arith
  finally have "\<bar>x / ?u\<bar> \<le> real_of_int (2 ^ 53)" by simp
  then have n: "\<bar>?n\<bar> \<le> 2 ^ 53" by (rule round_half_even_abs)
  then have "real_of_int \<bar>?n\<bar> \<le> real_of_int (2 ^ 53)"
    by (simp only: of_int_le_iff)
  then have "\<bar>real_of_int ?n\<bar> \<le> 2 ^ 53" by simp
  then have "\<bar>real_of_int ?n\<bar> * ?u \<le> 2 ^ 53 * ?u"
    using upos by (intro mult_right_mono) simp_all
  then have "\<bar>real_of_int ?n * ?u\<bar> \<le> 2 powi 53 * ?u"
    by (simp add: abs_mult)
  also have "\<dots> = 2 powi (53 + (k - 52))"
    by (rule power_int_add [symmetric]) simp
  also have "\<dots> = 2 powi (k + 1)"
    by (simp add: algebra_simps)
  also have "\<dots> \<le> 2 powi 1023"
    using \<open>k \<le> 1022\<close> by (intro power_int_increasing) simp_all
  also have "\<dots> < (2::real) ^ 1024"
    by simp
  finally have "\<not> \<bar>real_of_int ?n * ?u\<bar> \<ge> 2 ^ 1024" by simp
  with x0 show ?thesis
    by (simp add: round_double_def ue)
qed

text \<open>A number with a significand of at most 53 bits is its own rounding.\<close>

lemma round_double_dyadic:
  assumes "\<bar>n\<bar> < 2 ^ 53" and "- 1074 \<le> j" and "j \<le> 971"
  shows "round_double (real_of_int n * 2 powi j) = Finite (real_of_int n * 2 powi j)"
proof (cases "n = 0")
  case True
  then show ?thesis by (simp add: round_double_def)
next
  case False
  let ?x = "real_of_int n * 2 powi j"
  have x0: "?x \<noteq> 0" using False by simp
  define e where "e = ulp_exponent ?x"
  have absx: "\<bar>?x\<bar> = real_of_int \<bar>n\<bar> * 2 powi j"
    by (simp add: abs_mult)
  have ge1: "1 \<le> real_of_int \<bar>n\<bar>" using False by (simp add: of_int_abs)
  have lt53: "real_of_int \<bar>n\<bar> < 2 ^ 53"
    using assms(1) by (metis of_int_less_iff of_int_numeral of_int_power)
  have lower: "2 powi j \<le> \<bar>?x\<bar>"
  proof -
    have "1 * 2 powi j \<le> real_of_int \<bar>n\<bar> * (2::real) powi j"
      using ge1 by (intro mult_right_mono) simp_all
    then show ?thesis unfolding absx by simp
  qed
  have upper: "\<bar>?x\<bar> < 2 powi (j + 53)"
  proof -
    have "\<bar>?x\<bar> < 2 ^ 53 * 2 powi j"
      unfolding absx using lt53 by (intro mult_strict_right_mono) simp_all
    also have "\<dots> = 2 powi (53 + j)"
      by (simp add: power_int_add)
    finally show ?thesis by (simp add: add.commute)
  qed
  have pw: "(2::real) powr real_of_int (j + 53) = 2 powi (j + 53)"
    by (rule powr_real_of_int') simp_all
  have "log 2 \<bar>?x\<bar> < real_of_int (j + 53)"
    using x0 upper by (subst log_less_iff) (simp_all only: pw zero_less_abs_iff, simp_all)
  then have "\<lfloor>log 2 \<bar>?x\<bar>\<rfloor> < j + 53"
    by (simp only: floor_less_iff)
  then have "\<lfloor>log 2 \<bar>?x\<bar>\<rfloor> \<le> j + 52"
    by simp
  then have ej: "e \<le> j"
    using assms(2) by (simp add: e_def ulp_exponent_def)
  have "(2::real) powi j / 2 powi e = 2 powi (j - e)"
    by (rule power_int_diff [symmetric]) simp
  also have "\<dots> = 2 ^ nat (j - e)"
    using ej by (simp add: power_int_def)
  finally have quot: "(2::real) powi j / 2 powi e = 2 ^ nat (j - e)" .
  have "?x / 2 powi e = real_of_int n * (2 powi j / 2 powi e)"
    by simp
  then have div: "?x / 2 powi e = real_of_int (n * 2 ^ nat (j - e))"
    by (simp only: quot) simp
  have n: "round_half_even (?x / 2 powi e) = n * 2 ^ nat (j - e)"
    unfolding div by (rule round_half_even_of_int)
  have restore: "real_of_int (n * 2 ^ nat (j - e)) * 2 powi e = ?x"
    by (simp only: div [symmetric]) simp
  have nooverflow: "\<not> \<bar>?x\<bar> \<ge> 2 ^ 1024"
  proof -
    have "\<bar>?x\<bar> < 2 powi (j + 53)" by (rule upper)
    also have "\<dots> \<le> 2 powi 1024"
      using assms(3) by (intro power_int_increasing) simp_all
    finally show ?thesis by simp
  qed
  show ?thesis
    using x0 nooverflow unfolding round_double_def e_def [symmetric] n restore
    by simp
qed

lemma round_double_int:
  "\<bar>n\<bar> < 2 ^ 53 \<Longrightarrow> round_double (real_of_int n) = Finite (real_of_int n)"
  using round_double_dyadic [of n 0] by simp

lemma round_double_numeral:
  "numeral w < (9007199254740992::int) \<Longrightarrow> round_double (numeral w) = Finite (numeral w)"
  using round_double_int [of "numeral w"] by simp

lemma round_double_neg_numeral:
  "numeral w < (9007199254740992::int) \<Longrightarrow>
   round_double (- numeral w) = Finite (- numeral w)"
  using round_double_int [of "- numeral w"] by simp

lemma round_double_half_numeral:
  "numeral w < (9007199254740992::int) \<Longrightarrow>
   round_double (numeral w / 2) = Finite (numeral w / 2)"
  using round_double_dyadic [of "numeral w" "- 1"] by (simp add: power_int_minus field_simps)

lemma round_double_zero_one:
  "round_double 0 = Finite 0" "round_double 1 = Finite 1"
  using round_double_int [of 0] round_double_int [of 1] by simp_all

lemmas round_double_simps =
  round_double_numeral round_double_neg_numeral round_double_half_numeral round_double_zero_one

text \<open>The doubles the decimal literals of the classifiers denote.\<close>

lemma round_double_3_10: "round_double (3 / 10) = Finite (5404319552844595 / 2 ^ 54)"
  using round_double_eval [of "- 2" "3 / 10"]
  by (simp add: power_int_minus round_half_even_def)

lemma round_double_2_5: "round_double (2 / 5) = Finite (7205759403792794 / 2 ^ 54)"
  using round_double_eval [of "- 2" "2 / 5"]
  by (simp add: power_int_minus round_half_even_def)

lemma round_double_1_20: "round_double (1 / 20) = Finite (7205759403792794 / 2 ^ 57)"
  using round_double_eval [of "- 5" "1 / 20"]
  by (simp add: power_int_minus round_half_even_def)

lemmas js_lit_simps = js_lit_def round_double_3_10 round_double_2_5 round_double_1_20

text \<open>
  Sums, midpoints and differences of integers of magnitude at most \<open>2 ^ 50\<close> are
  computed without rounding.
\<close>

lemma round_double_half_int:
  "\<bar>n\<bar> < 2 ^ 53 \<Longrightarrow> round_double (real_of_int n / 2) = Finite (real_of_int n / 2)"
  using round_double_dyadic [of n "- 1"] by (simp add: power_int_minus field_simps)

lemma midpoint_exact:
  assumes "\<bar>a\<bar> \<le> 2 ^ 50" and "\<bar>b\<bar> \<le> 2 ^ 50"
  shows "js_div (js_add (Finite (real_of_int a)) (Finite (real_of_int b))) (Finite 2) =
     Finite (real_of_int (a + b) / 2)"
proof -
  have "\<bar>a + b\<bar> < 2 ^ 53" using assms by simp
  then have "round_double (real_of_int (a + b)) = Finite (real_of_int (a + b))"
    and "round_double (real_of_int (a + b) / 2) = Finite (real_of_int (a + b) / 2)"
    by (rule round_double_int, rule round_double_half_int)
  then show ?thesis by simp
qed

lemma half_difference_exact:
  assumes "\<bar>m\<bar> \<le> 2 ^ 51" and "\<bar>n\<bar> \<le> 2 ^ 51"
  shows "js_abs (js_sub (Finite (real_of_int m / 2)) (Finite (real_of_int n / 2))) =
     Finite \<bar>real_of_int m / 2 - real_of_int n / 2\<bar>"
proof -
  have "\<bar>m - n\<bar> < 2 ^ 53" using assms by simp
  then have "round_double (real_of_int (m - n) / 2) = Finite (real_of_int (m - n) / 2)"
    by (rule round_double_half_int)
  moreover have "real_of_int m / 2 + - (real_of_int n / 2) = real_of_int (m - n) / 2"
    by (simp add: field_simps)
  ultimately show ?thesis
    by (simp add: js_sub_def field_simps)
qed

lemma difference_exact:
  assumes "\<bar>a\<bar> \<le> 2 ^ 50" and "\<bar>b\<bar> \<le> 2 ^ 50"
  shows "js_abs (js_sub (Finite (real_of_int a)) (Finite (real_of_int b))) =
     Finite \<bar>real_of_int a - real_of_int b\<bar>"
proof -
  have "\<bar>a - b\<bar> < 2 ^ 53" using assms by simp
  then have "round_double (real_of_int (a - b)) = Finite (real_of_int (a - b))"
    by (rule round_double_int)
  then show ?thesis
    by (simp add: js_sub_def)
qed

section \<open>Properties of the posture classifier\<close>

lemma includes_issue_facts:
  "str_includes ''Slouching detected'' ''Slouching''"
  "\<not> str_includes ''Leaning left'' ''Slouching''"
  "\<not> str_includes ''Leaning right'' ''Slouching''"
  "\<not> str_includes ''Forward head posture'' ''Slouching''"
  "str_includes ''Leaning left'' ''Leaning left''"
  "\<not> str_includes ''Leaning right'' ''Leaning left''"
  "\<not> str_includes ''Forward head posture'' ''Leaning left''"
  "str_includes ''Leaning right'' ''Leaning right''"
  "\<not> str_includes ''Forward head posture'' ''Leaning right''"
  "str_includes ''Forward head posture'' ''Forward head''"
  by (simp_all add: str_includes_def sublist_code)

lemma checks_closed_form:
  "checkForwardHead n ls rs (checkLeaning ls rs (checkSlouching ls rs lh rh ([], 100))) =
     ((if js_lt (torsoLength ls rs lh rh) (Finite 150) then [''Slouching detected''] else []) @
      (if js_gt (shoulderDiff ls rs) (Finite 20)
       then [if js_gt (kp_y ls) (kp_y rs) then ''Leaning left'' else ''Leaning right''] else []) @
      (if js_gt (headForward n ls rs) (Finite 30) then [''Forward head posture''] else []),
      100 - (if js_lt (torsoLength ls rs lh rh) (Finite 150) then 30 else 0)
          - (if js_gt (shoulderDiff ls rs) (Finite 20) then 20 else 0)
          - (if js_gt (headForward n ls rs) (Finite 30) then 25 else 0))"
  by (simp add: checkForwardHead_def checkLeaning_def checkSlouching_def)

lemma determineStatus_closed_form:
  "determineStatus
     ((if a then [''Slouching detected''] else []) @
      (if b then [if l then ''Leaning left'' else ''Leaning right''] else []) @
      (if c then [''Forward head posture''] else [])) =
   (if a then ''slouching''
    else if b \<and> l then ''leaning_left''
    else if b then ''leaning_right''
    else if c then ''forward_head'' else ''good'')"
  by (simp add: determineStatus_def includes_issue_facts)

lemma analyzeKeypoints_status:
  "status (analyzeKeypoints n ls rs lh rh) =
   (if js_lt (torsoLength ls rs lh rh) (Finite 150) then ''slouching''
    else if js_gt (shoulderDiff ls rs) (Finite 20) \<and> js_gt (kp_y ls) (kp_y rs) then ''leaning_left''
    else if js_gt (shoulderDiff ls rs) (Finite 20) then ''leaning_right''
    else if js_gt (headForward n ls rs) (Finite 30) then ''forward_head'' else ''good'')"
  unfolding analyzeKeypoints_def checks_closed_form
  by (simp only: prod.case PostureStatus.simps determineStatus_closed_form)

lemma analyzeKeypoints_issues:
  "issues (analyzeKeypoints n ls rs lh rh) =
     (if js_lt (torsoLength ls rs lh rh) (Finite 150) then [''Slouching detected''] else []) @
      (if js_gt (shoulderDiff ls rs) (Finite 20)
       then [if js_gt (kp_y ls) (kp_y rs) then ''Leaning left'' else ''Leaning right''] else []) @
      (if js_gt (headForward n ls rs) (Finite 30) then [''Forward head posture''] else [])"
  unfolding analyzeKeypoints_def checks_closed_form
  by simp

lemma analyzeKeypoints_score:
  "score (analyzeKeypoints n ls rs lh rh) =
     100 - (if js_lt (torsoLength ls rs lh rh) (Finite 150) then 30 else 0)
          - (if js_gt (shoulderDiff ls rs) (Finite 20) then 20 else 0)
          - (if js_gt (headForward n ls rs) (Finite 30) then 25 else 0)"
  unfolding analyzeKeypoints_def checks_closed_form
  by simp

lemma analyzePosture_complete:
  "requiredKeypoints pose = Some (n, ls, rs, lh, rh) \<Longrightarrow>
   analyzePosture (Some (pose # rest)) = analyzeKeypoints n ls rs lh rh"
  by (simp add: analyzePosture_def)

lemma requiredKeypoints_None:
  "(requiredKeypoints pose = None) =
   (find (named ''nose'') (keypoints pose) = None \<or>
    find (named ''left_shoulder'') (keypoints pose) = None \<or>
    find (named ''right_shoulder'') (keypoints pose) = None \<or>
    find (named ''left_hip'') (keypoints pose) = None \<or>
    find (named ''right_hip'') (keypoints pose) = None)"
  by (auto simp: requiredKeypoints_def split: option.splits)

text \<open>
  For keypoints with integer coordinates of magnitude at most \<open>2 ^ 50\<close> the three
  quantities are computed without rounding, and the checks are those of exact
  arithmetic.
\<close>

lemma torsoLength_exact:
  assumes "kp_y ls = Finite (real_of_int a)" "kp_y rs = Finite (real_of_int b)"
    "kp_y lh = Finite (real_of_int c)" "kp_y rh = Finite (real_of_int d)"
    "\<bar>a\<bar> \<le> 2 ^ 50" "\<bar>b\<bar> \<le> 2 ^ 50" "\<bar>c\<bar> \<le> 2 ^ 50" "\<bar>d\<bar> \<le> 2 ^ 50"
  shows "torsoLength ls rs lh rh =
     Finite \<bar>(real_of_int a + real_of_int b) / 2 - (real_of_int c + real_of_int d) / 2\<bar>"
proof -
  have shoulders: "js_div (js_add (kp_y ls) (kp_y rs)) (Finite 2) =
      Finite (real_of_int (a + b) / 2)"
    unfolding assms(1,2) using assms(5,6) by (rule midpoint_exact)
  have hips: "js_div (js_add (kp_y lh) (kp_y rh)) (Finite 2) =
      Finite (real_of_int (c + d) / 2)"
    unfolding assms(3,4) using assms(7,8) by (rule midpoint_exact)
  have "\<bar>a + b\<bar> \<le> 2 ^ 51" "\<bar>c + d\<bar> \<le> 2 ^ 51" using assms by simp_all
  from half_difference_exact [OF this] show ?thesis
    unfolding torsoLength_def Let_def shoulders hips by simp
qed

lemma shoulderDiff_exact:
  assumes "kp_y ls = Finite (real_of_int a)" "kp_y rs = Finite (real_of_int b)"
    "\<bar>a\<bar> \<le> 2 ^ 50" "\<bar>b\<bar> \<le> 2 ^ 50"
  shows "shoulderDiff ls rs = Finite \<bar>real_of_int a - real_of_int b\<bar>"
  unfolding shoulderDiff_def assms(1,2) using assms(3,4) by (rule difference_exact)

lemma headForward_exact:
  assumes "kp_x n = Finite (real_of_int x)" "kp_x ls = Finite (real_of_int a)"
    "kp_x rs = Finite (real_of_int b)"
    "\<bar>x\<bar> \<le> 2 ^ 50" "\<bar>a\<bar> \<le> 2 ^ 50" "\<bar>b\<bar> \<le> 2 ^ 50"
  shows "headForward n ls rs =
     Finite \<bar>real_of_int x - (real_of_int a + real_of_int b) / 2\<bar>"
proof -
  have shoulders: "js_div (js_add (kp_x ls) (kp_x rs)) (Finite 2) =
      Finite (real_of_int (a + b) / 2)"
    unfolding assms(2,3) using assms(5,6) by (rule midpoint_exact)
  have nose: "kp_x n = Finite (real_of_int (2 * x) / 2)"
    using assms(1) by simp
  have "\<bar>2 * x\<bar> \<le> 2 ^ 51" "\<bar>a + b\<bar> \<le> 2 ^ 51" using assms by simp_all
  from half_difference_exact [OF this] show ?thesis
    unfolding headForward_def Let_def shoulders nose by simp
qed

lemma analyzePosture_integer_coordinates:
  assumes "requiredKeypoints pose = Some (n, ls, rs, lh, rh)"
    and "kp_x n = Finite (real_of_int nx)"
    and "kp_x ls = Finite (real_of_int lx)" "kp_y ls = Finite (real_of_int ly)"
    and "kp_x rs = Finite (real_of_int rx)" "kp_y rs = Finite (real_of_int ry)"
    and "kp_y lh = Finite (real_of_int hl)" "kp_y rh = Finite (real_of_int hr)"
    and "\<bar>nx\<bar> \<le> 2 ^ 50" "\<bar>lx\<bar> \<le> 2 ^ 50" "\<bar>ly\<bar> \<le> 2 ^ 50" "\<bar>rx\<bar> \<le> 2 ^ 50"
      "\<bar>ry\<bar> \<le> 2 ^ 50" "\<bar>hl\<bar> \<le> 2 ^ 50" "\<bar>hr\<bar> \<le> 2 ^ 50"
  shows "issues (analyzePosture (Some (pose # rest))) =
     (if \<bar>(real_of_int ly + real_of_int ry) / 2 - (real_of_int hl + real_of_int hr) / 2\<bar> < 150
      then [''Slouching detected''] else []) @
     (if \<bar>real_of_int ly - real_of_int ry\<bar> > 20
      then [if ly > ry then ''Leaning left'' else ''Leaning right''] else []) @
     (if \<bar>real_of_int nx - (real_of_int lx + real_of_int rx) / 2\<bar> > 30
      then [''Forward head posture''] else [])"
proof -
  have t: "torsoLength ls rs lh rh =
      Finite \<bar>(real_of_int ly + real_of_int ry) / 2 - (real_of_int hl + real_of_int hr) / 2\<bar>"
    using assms by (intro torsoLength_exact)
  have s: "shoulderDiff ls rs = Finite \<bar>real_of_int ly - real_of_int ry\<bar>"
    using assms by (intro shoulderDiff_exact)
  have h: "headForward n ls rs =
      Finite \<bar>real_of_int nx - (real_of_int lx + real_of_int rx) / 2\<bar>"
    using assms by (intro headForward_exact)
  show ?thesis
    unfolding analyzePosture_complete [OF assms(1)] analyzeKeypoints_issues t s h
    by (simp add: js_gt_def assms)
qed

text \<open>
  The quantities are those of double arithmetic. With the shoulders at y 0 and the hips
  at y 150 and 150 - 2 powi -45, the sum of the hips' y is rounded to 300, the torso
  length is 150, and no slouching is reported.
\<close>

lemma round_double_hip_sum: "round_double (300 - 2 powi (- 45)) = Finite 300"
  using round_double_eval [of 8 "300 - 2 powi (- 45)"]
  by (simp add: power_int_minus round_half_even_def)

lemma torsoLength_rounded:
  "torsoLength \<lparr>kp_x = Finite 80, kp_y = Finite 0, kp_name = Some ''left_shoulder''\<rparr>
               \<lparr>kp_x = Finite 120, kp_y = Finite 0, kp_name = Some ''right_shoulder''\<rparr>
               \<lparr>kp_x = Finite 85, kp_y = Finite 150, kp_name = Some ''left_hip''\<rparr>
               \<lparr>kp_x = Finite 115, kp_y = Finite (150 - 2 powi (- 45)),
                kp_name = Some ''right_hip''\<rparr>
     = Finite 150"
proof -
  have "(150::real) + (150 - 2 powi (- 45)) = 300 - 2 powi (- 45)"
    by simp
  then have "js_add (Finite 150) (Finite (150 - 2 powi (- 45))) = Finite 300"
    by (simp only: js_add.simps round_double_hip_sum)
  then show ?thesis
    by (simp add: torsoLength_def js_sub_def round_double_simps)
qed

lemma analyzePosture_rounded_example:
  "analyzePosture (Some
      [\<lparr>keypoints =
          [\<lparr>kp_x = Finite 100, kp_y = Finite 0, kp_name = Some ''nose''\<rparr>,
           \<lparr>kp_x = Finite 80, kp_y = Finite 0, kp_name = Some ''left_shoulder''\<rparr>,
           \<lparr>kp_x = Finite 120, kp_y = Finite 0, kp_name = Some ''right_shoulder''\<rparr>,
           \<lparr>kp_x = Finite 85, kp_y = Finite 150, kp_name = Some ''left_hip''\<rparr>,
           \<lparr>kp_x = Finite 115, kp_y = Finite (150 - 2 powi (- 45)),
            kp_name = Some ''right_hip''\<rparr>]\<rparr>])
   = \<lparr>status = ''good'', score = 100, issues = []\<rparr>"
proof -
  let ?nose = "\<lparr>kp_x = Finite 100, kp_y = Finite 0, kp_name = Some ''nose''\<rparr>"
  let ?ls = "\<lparr>kp_x = Finite 80, kp_y = Finite 0, kp_name = Some ''left_shoulder''\<rparr>"
  let ?rs = "\<lparr>kp_x = Finite 120, kp_y = Finite 0, kp_name = Some ''right_shoulder''\<rparr>"
  let ?lh = "\<lparr>kp_x = Finite 85, kp_y = Finite 150, kp_name = Some ''left_hip''\<rparr>"
  let ?rh = "\<lparr>kp_x = Finite 115, kp_y = Finite (150 - 2 powi (- 45)),
             kp_name = Some ''right_hip''\<rparr>"
  let ?pose = "\<lparr>keypoints = [?nose, ?ls, ?rs, ?lh, ?rh]\<rparr>"
  have found: "requiredKeypoints ?pose = Some (?nose, ?ls, ?rs, ?lh, ?rh)"
    by (simp add: requiredKeypoints_def named_def)
  have sd: "shoulderDiff ?ls ?rs = Finite 0"
    by (simp add: shoulderDiff_def js_sub_def round_double_simps)
  have hf: "headForward ?nose ?ls ?rs = Finite 0"
    by (simp add: headForward_def js_sub_def round_double_simps)
  have "analyzeKeypoints ?nose ?ls ?rs ?lh ?rh = \<lparr>status = ''good'', score = 100, issues = []\<rparr>"
    apply (rule PostureStatus.equality)
    apply (simp_all only: analyzeKeypoints_status analyzeKeypoints_score
        analyzeKeypoints_issues torsoLength_rounded sd hf)
    apply (simp_all add: js_gt_def)
    done
  then show ?thesis
    by (simp only: analyzePosture_complete [OF found])
qed

text \<open>
  Claim C5. For a pose in which the five required keypoints are found, \<open>analyzePosture\<close>
  compares the three quantities, computed from the keypoints in the double arithmetic of
  the source, with fixed thresholds: it reports slouching exactly when the vertical
  distance between the shoulder midpoint and the hip midpoint is below 150, leaning
  exactly when the shoulders' vertical difference exceeds 20 (left when the left
  shoulder has the larger y, that is, is lower on screen, right otherwise), and forward
  head exactly when the nose is more than 30 away horizontally from the shoulder
  midpoint; the status is the first of slouching, leaning left, leaning right and
  forward head that is reported, and good when none is.
\<close>

theorem analyzePosture_geometry:
  assumes "requiredKeypoints pose = Some (nose, leftShoulder, rightShoulder, leftHip, rightHip)"
  shows
   "(''Slouching detected'' \<in> set (issues (analyzePosture (Some (pose # rest)))))
      = js_lt (js_abs (js_sub
                 (js_div (js_add (kp_y leftShoulder) (kp_y rightShoulder)) (Finite 2))
                 (js_div (js_add (kp_y leftHip) (kp_y rightHip)) (Finite 2))))
              (Finite 150)
    \<and> (''Leaning left'' \<in> set (issues (analyzePosture (Some (pose # rest)))))
      = (js_gt (js_abs (js_sub (kp_y leftShoulder) (kp_y rightShoulder))) (Finite 20) \<and>
         js_gt (kp_y leftShoulder) (kp_y rightShoulder))
    \<and> (''Leaning right'' \<in> set (issues (analyzePosture (Some (pose # rest)))))
      = (js_gt (js_abs (js_sub (kp_y leftShoulder) (kp_y rightShoulder))) (Finite 20) \<and>
         \<not> js_gt (kp_y leftShoulder) (kp_y rightShoulder))
    \<and> (''Forward head posture'' \<in> set (issues (analyzePosture (Some (pose # rest)))))
      = js_gt (js_abs (js_sub (kp_x nose)
                 (js_div (js_add (kp_x leftShoulder) (kp_x rightShoulder)) (Finite 2))))
              (Finite 30)
    \<and> status (analyzePosture (Some (pose # rest))) =
        (if ''Slouching detected'' \<in> set (issues (analyzePosture (Some (pose # rest))))
         then ''slouching''
         else if ''Leaning left'' \<in> set (issues (analyzePosture (Some (pose # rest))))
         then ''leaning_left''
         else if ''Leaning right'' \<in> set (issues (analyzePosture (Some (pose # rest))))
         then ''leaning_right''
         else if ''Forward head posture'' \<in> set (issues (analyzePosture (Some (pose # rest))))
         then ''forward_head''
         else ''good'')"
proof -
  let ?r = "analyzeKeypoints nose leftShoulder rightShoulder leftHip rightHip"
  let ?t = "js_lt (js_abs (js_sub
                 (js_div (js_add (kp_y leftShoulder) (kp_y rightShoulder)) (Finite 2))
                 (js_div (js_add (kp_y leftHip) (kp_y rightHip)) (Finite 2))))
              (Finite 150)"
  let ?s = "js_gt (js_abs (js_sub (kp_y leftShoulder) (kp_y rightShoulder))) (Finite 20)"
  let ?l = "js_gt (kp_y leftShoulder) (kp_y rightShoulder)"
  let ?h = "js_gt (js_abs (js_sub (kp_x nose)
                 (js_div (js_add (kp_x leftShoulder) (kp_x rightShoulder)) (Finite 2))))
              (Finite 30)"
  have r: "analyzePosture (Some (pose # rest)) = ?r"
    using assms by (rule analyzePosture_complete)
  have t: "js_lt (torsoLength leftShoulder rightShoulder leftHip rightHip) (Finite 150) = ?t"
    by (simp add: torsoLength_def)
  have h: "js_gt (headForward nose leftShoulder rightShoulder) (Finite 30) = ?h"
    by (simp add: headForward_def)
  have s: "js_gt (shoulderDiff leftShoulder rightShoulder) (Finite 20) = ?s"
    by (simp add: shoulderDiff_def)
  have 1: "(''Slouching detected'' \<in> set (issues ?r)) = ?t"
    by (simp add: analyzeKeypoints_issues t)
  have 2: "(''Leaning left'' \<in> set (issues ?r)) = (?s \<and> ?l)"
    by (simp add: analyzeKeypoints_issues s)
  have 3: "(''Leaning right'' \<in> set (issues ?r)) = (?s \<and> \<not> ?l)"
    by (simp add: analyzeKeypoints_issues s)
  have 4: "(''Forward head posture'' \<in> set (issues ?r)) = ?h"
    by (simp add: analyzeKeypoints_issues h)
  have 5: "status ?r =
        (if ''Slouching detected'' \<in> set (issues ?r) then ''slouching''
         else if ''Leaning left'' \<in> set (issues ?r) then ''leaning_left''
         else if ''Leaning right'' \<in> set (issues ?r) then ''leaning_right''
         else if ''Forward head posture'' \<in> set (issues ?r) then ''forward_head''
         else ''good'')"
    unfolding 1 2 3 4 analyzeKeypoints_status t s h by auto
  show ?thesis unfolding r using 1 2 3 4 5 by blast
qed

theorem analyzePosture_geometry_witness:
  "''Leaning right'' \<in> set (issues (analyzePosture (Some
      [\<lparr>keypoints =
          [\<lparr>kp_x = Finite 100, kp_y = Finite 50, kp_name = Some ''nose''\<rparr>,
           \<lparr>kp_x = Finite 80, kp_y = Finite 100, kp_name = Some ''left_shoulder''\<rparr>,
           \<lparr>kp_x = Finite 120, kp_y = Finite 130, kp_name = Some ''right_shoulder''\<rparr>,
           \<lparr>kp_x = Finite 85, kp_y = Finite 300, kp_name = Some ''left_hip''\<rparr>,
           \<lparr>kp_x = Finite 115, kp_y = Finite 310, kp_name = Some ''right_hip''\<rparr>]\<rparr>])))
   \<and> ''Slouching detected'' \<notin> set (issues (analyzePosture (Some
      [\<lparr>keypoints =
          [\<lparr>kp_x = Finite 100, kp_y = Finite 50, kp_name = Some ''nose''\<rparr>,
           \<lparr>kp_x = Finite 80, kp_y = Finite 100, kp_name = Some ''left_shoulder''\<rparr>,
           \<lparr>kp_x = Finite 120, kp_y = Finite 130, kp_name = Some ''right_shoulder''\<rparr>,
           \<lparr>kp_x = Finite 85, kp_y = Finite 300, kp_name = Some ''left_hip''\<rparr>,
           \<lparr>kp_x = Finite 115, kp_y = Finite 310, kp_name = Some ''right_hip''\<rparr>]\<rparr>])))
   \<and> status (analyzePosture (Some
      [\<lparr>keypoints =
          [\<lparr>kp_x = Finite 100, kp_y = Finite 50, kp_name = Some ''nose''\<rparr>,
           \<lparr>kp_x = Finite 80, kp_y = Finite 100, kp_name = Some ''left_shoulder''\<rparr>,
           \<lparr>kp_x = Finite 120, kp_y = Finite 130, kp_name = Some ''right_shoulder''\<rparr>,
           \<lparr>kp_x = Finite 85, kp_y = Finite 300, kp_name = Some ''left_hip''\<rparr>,
           \<lparr>kp_x = Finite 115, kp_y = Finite 310, kp_name = Some ''right_hip''\<rparr>]\<rparr>])) = ''leaning_right''"
proof -
  let ?nose = "\<lparr>kp_x = Finite 100, kp_y = Finite 50, kp_name = Some ''nose''\<rparr>"
  let ?ls = "\<lparr>kp_x = Finite 80, kp_y = Finite 100, kp_name = Some ''left_shoulder''\<rparr>"
  let ?rs = "\<lparr>kp_x = Finite 120, kp_y = Finite 130, kp_name = Some ''right_shoulder''\<rparr>"
  let ?lh = "\<lparr>kp_x = Finite 85, kp_y = Finite 300, kp_name = Some ''left_hip''\<rparr>"
  let ?rh = "\<lparr>kp_x = Finite 115, kp_y = Finite 310, kp_name = Some ''right_hip''\<rparr>"
  let ?pose = "\<lparr>keypoints = [?nose, ?ls, ?rs, ?lh, ?rh]\<rparr>"
  have found: "requiredKeypoints ?pose = Some (?nose, ?ls, ?rs, ?lh, ?rh)"
    by (simp add: requiredKeypoints_def named_def)
  show ?thesis
    using analyzePosture_geometry [OF found, of "[]"]
    by (simp add: js_sub_def js_gt_def round_double_simps)
qed

text \<open>
  Claim C9. The score \<open>analyzePosture\<close> returns lies between 0 and 100 for every input.
  For a pose with the five required keypoints it is 100 minus 30 when slouching is
  reported, minus 20 when leaning is reported, minus 25 when forward head is reported
  (with 0 as lower bound); it is 100 exactly when no issue is reported, and that is
  exactly when the status is good.
\<close>

theorem analyzePosture_score:
  "0 \<le> score (analyzePosture poses) \<and> score (analyzePosture poses) \<le> 100 \<and>
   (requiredKeypoints pose = Some (nose, leftShoulder, rightShoulder, leftHip, rightHip) \<longrightarrow>
      score (analyzePosture (Some (pose # rest))) =
        max 0 (100
          - (if ''Slouching detected'' \<in> set (issues (analyzePosture (Some (pose # rest))))
             then 30 else 0)
          - (if ''Leaning left'' \<in> set (issues (analyzePosture (Some (pose # rest)))) \<or>
                ''Leaning right'' \<in> set (issues (analyzePosture (Some (pose # rest))))
             then 20 else 0)
          - (if ''Forward head posture'' \<in> set (issues (analyzePosture (Some (pose # rest))))
             then 25 else 0))
      \<and> (score (analyzePosture (Some (pose # rest))) = 100)
          = (issues (analyzePosture (Some (pose # rest))) = [])
      \<and> (issues (analyzePosture (Some (pose # rest))) = [])
          = (status (analyzePosture (Some (pose # rest))) = ''good''))"
proof -
  have complete: "0 \<le> score (analyzeKeypoints n ls rs lh rh) \<and>
      score (analyzeKeypoints n ls rs lh rh) \<le> 100" for n ls rs lh rh
    by (simp add: analyzeKeypoints_score)
  have bounds: "0 \<le> score (analyzePosture poses) \<and> score (analyzePosture poses) \<le> 100"
  proof (cases poses)
    case None
    then show ?thesis by (simp add: analyzePosture_def)
  next
    case (Some ps)
    show ?thesis
    proof (cases ps)
      case Nil
      with Some show ?thesis by (simp add: analyzePosture_def)
    next
      case (Cons p rest')
      show ?thesis
      proof (cases "requiredKeypoints p")
        case None
        with Some Cons show ?thesis by (simp add: analyzePosture_def)
      next
        case (Some found)
        obtain n ls rs lh rh where "found = (n, ls, rs, lh, rh)"
          by (cases found) auto
        with Some have "analyzePosture (Some (p # rest')) = analyzeKeypoints n ls rs lh rh"
          by (simp add: analyzePosture_complete)
        with complete [of n ls rs lh rh] \<open>poses = Some ps\<close> Cons show ?thesis by simp
      qed
    qed
  qed
  have five: "score (analyzePosture (Some (pose # rest))) =
        max 0 (100
          - (if ''Slouching detected'' \<in> set (issues (analyzePosture (Some (pose # rest))))
             then 30 else 0)
          - (if ''Leaning left'' \<in> set (issues (analyzePosture (Some (pose # rest)))) \<or>
                ''Leaning right'' \<in> set (issues (analyzePosture (Some (pose # rest))))
             then 20 else 0)
          - (if ''Forward head posture'' \<in> set (issues (analyzePosture (Some (pose # rest))))
             then 25 else 0))
      \<and> (score (analyzePosture (Some (pose # rest))) = 100)
          = (issues (analyzePosture (Some (pose # rest))) = [])
      \<and> (issues (analyzePosture (Some (pose # rest))) = [])
          = (status (analyzePosture (Some (pose # rest))) = ''good'')"
    if found: "requiredKeypoints pose = Some (nose, leftShoulder, rightShoulder, leftHip, rightHip)"
  proof -
    have r: "analyzePosture (Some (pose # rest)) =
        analyzeKeypoints nose leftShoulder rightShoulder leftHip rightHip"
      using found by (rule analyzePosture_complete)
    show ?thesis
      unfolding r analyzeKeypoints_score analyzeKeypoints_issues analyzeKeypoints_status
      by simp
  qed
  from bounds five show ?thesis by blast
qed

theorem analyzePosture_score_witness:
  "score (analyzePosture (Some
      [\<lparr>keypoints =
          [\<lparr>kp_x = Finite 100, kp_y = Finite 50, kp_name = Some ''nose''\<rparr>,
           \<lparr>kp_x = Finite 80, kp_y = Finite 100, kp_name = Some ''left_shoulder''\<rparr>,
           \<lparr>kp_x = Finite 120, kp_y = Finite 130, kp_name = Some ''right_shoulder''\<rparr>,
           \<lparr>kp_x = Finite 85, kp_y = Finite 300, kp_name = Some ''left_hip''\<rparr>,
           \<lparr>kp_x = Finite 150, kp_y = Finite 310, kp_name = Some ''right_hip''\<rparr>]\<rparr>])) = 80
   \<and> issues (analyzePosture (Some
      [\<lparr>keypoints =
          [\<lparr>kp_x = Finite 100, kp_y = Finite 50, kp_name = Some ''nose''\<rparr>,
           \<lparr>kp_x = Finite 80, kp_y = Finite 100, kp_name = Some ''left_shoulder''\<rparr>,
           \<lparr>kp_x = Finite 120, kp_y = Finite 130, kp_name = Some ''right_shoulder''\<rparr>,
           \<lparr>kp_x = Finite 85, kp_y = Finite 300, kp_name = Some ''left_hip''\<rparr>,
           \<lparr>kp_x = Finite 150, kp_y = Finite 310, kp_name = Some ''right_hip''\<rparr>]\<rparr>])) \<noteq> []
   \<and> status (analyzePosture (Some
      [\<lparr>keypoints =
          [\<lparr>kp_x = Finite 100, kp_y = Finite 50, kp_name = Some ''nose''\<rparr>,
           \<lparr>kp_x = Finite 80, kp_y = Finite 100, kp_name = Some ''left_shoulder''\<rparr>,
           \<lparr>kp_x = Finite 120, kp_y = Finite 130, kp_name = Some ''right_shoulder''\<rparr>,
           \<lparr>kp_x = Finite 85, kp_y = Finite 300, kp_name = Some ''left_hip''\<rparr>,
           \<lparr>kp_x = Finite 150, kp_y = Finite 310, kp_name = Some ''right_hip''\<rparr>]\<rparr>])) \<noteq> ''good''"
proof -
  let ?nose = "\<lparr>kp_x = Finite 100, kp_y = Finite 50, kp_name = Some ''nose''\<rparr>"
  let ?ls = "\<lparr>kp_x = Finite 80, kp_y = Finite 100, kp_name = Some ''left_shoulder''\<rparr>"
  let ?rs = "\<lparr>kp_x = Finite 120, kp_y = Finite 130, kp_name = Some ''right_shoulder''\<rparr>"
  let ?lh = "\<lparr>kp_x = Finite 85, kp_y = Finite 300, kp_name = Some ''left_hip''\<rparr>"
  let ?rh = "\<lparr>kp_x = Finite 150, kp_y = Finite 310, kp_name = Some ''right_hip''\<rparr>"
  let ?pose = "\<lparr>keypoints = [?nose, ?ls, ?rs, ?lh, ?rh]\<rparr>"
  have found: "requiredKeypoints ?pose = Some (?nose, ?ls, ?rs, ?lh, ?rh)"
    by (simp add: requiredKeypoints_def named_def)
  have leaning: "''Leaning right'' \<in> set (issues (analyzePosture (Some [?pose])))"
    and others: "''Slouching detected'' \<notin> set (issues (analyzePosture (Some [?pose])))"
      "''Forward head posture'' \<notin> set (issues (analyzePosture (Some [?pose])))"
    by (simp_all add: analyzePosture_complete [OF found] analyzeKeypoints_issues
        torsoLength_def shoulderDiff_def headForward_def js_sub_def js_gt_def
        round_double_simps)
  from leaning have nonempty: "issues (analyzePosture (Some [?pose])) \<noteq> []"
    by auto
  show ?thesis
    using analyzePosture_score [of "Some [?pose]" ?pose ?nose ?ls ?rs ?lh ?rh "[]"]
      found leaning others nonempty
    by simp
qed

section \<open>Properties of the mood classifiers\<close>

text \<open>
  Two evaluations of \<open>detectSmile\<close> on 468 landmarks: a mouth 8 wide and 2 high whose
  corners lie above the nose tip's y by 1 is a smile (ratio 4); with closed lips (height
  0) the ratio is JavaScript's Infinity, which exceeds 3.5 too.
\<close>

lemma detectSmile_example:
  "detectSmile (Some ((replicate 468 \<lparr>lm_x = Finite 0, lm_y = Finite 0, lm_z = Finite 0\<rparr>)
      [61 := \<lparr>lm_x = Finite 0, lm_y = Finite 1, lm_z = Finite 0\<rparr>,
       291 := \<lparr>lm_x = Finite 8, lm_y = Finite 1, lm_z = Finite 0\<rparr>,
       13 := \<lparr>lm_x = Finite 4, lm_y = Finite 0, lm_z = Finite 0\<rparr>,
       14 := \<lparr>lm_x = Finite 4, lm_y = Finite 2, lm_z = Finite 0\<rparr>,
       1 := \<lparr>lm_x = Finite 4, lm_y = Finite 2, lm_z = Finite 0\<rparr>]))"
  by (simp add: detectSmile_def js_sub_def js_gt_def js_lit_simps round_double_simps)

lemma detectSmile_closed_lips:
  "detectSmile (Some ((replicate 468 \<lparr>lm_x = Finite 0, lm_y = Finite 0, lm_z = Finite 0\<rparr>)
      [61 := \<lparr>lm_x = Finite 0, lm_y = Finite 1, lm_z = Finite 0\<rparr>,
       291 := \<lparr>lm_x = Finite 8, lm_y = Finite 1, lm_z = Finite 0\<rparr>,
       13 := \<lparr>lm_x = Finite 4, lm_y = Finite 1, lm_z = Finite 0\<rparr>,
       14 := \<lparr>lm_x = Finite 4, lm_y = Finite 1, lm_z = Finite 0\<rparr>,
       1 := \<lparr>lm_x = Finite 4, lm_y = Finite 2, lm_z = Finite 0\<rparr>]))"
  by (simp add: detectSmile_def js_sub_def js_gt_def js_lit_simps round_double_simps)

lemma classifyMood_smile_example:
  "classifyMood (Some ((replicate 468 \<lparr>lm_x = Finite 0, lm_y = Finite 0, lm_z = Finite 0\<rparr>)
      [61 := \<lparr>lm_x = Finite 0, lm_y = Finite 1, lm_z = Finite 0\<rparr>,
       291 := \<lparr>lm_x = Finite 8, lm_y = Finite 1, lm_z = Finite 0\<rparr>,
       13 := \<lparr>lm_x = Finite 4, lm_y = Finite 0, lm_z = Finite 0\<rparr>,
       14 := \<lparr>lm_x = Finite 4, lm_y = Finite 2, lm_z = Finite 0\<rparr>,
       1 := \<lparr>lm_x = Finite 4, lm_y = Finite 2, lm_z = Finite 0\<rparr>])) None = Inr ''Happy''"
  using detectSmile_example
  by (simp add: classifyMood_def blendshapeMood_def landmarkMood_def)

text \<open>
  Claim C2. With insufficient landmarks the classifiers answer a neutral result and do
  not throw: \<open>classifyMood\<close> returns the label \<open>Analyzing...\<close> for a missing landmark
  array and for one with fewer than 10 landmarks, whatever the blendshapes argument is;
  \<open>analyzePosture\<close> returns status good, score 0 and one explanatory issue for a missing
  or empty pose array and for a first pose in which one of the five required keypoints
  is not found. (\<open>analyzePosture\<close> has no statement that can throw on a pose array, so
  its model has no exceptional result; \<open>classifyMood\<close> returning \<open>Inr\<close> is its not
  throwing.)
\<close>

theorem insufficient_landmarks:
  "((landmarks = None \<or> (\<exists>lms. landmarks = Some lms \<and> length lms < 10)) \<longrightarrow>
      classifyMood landmarks blendshapes = Inr ''Analyzing...'')
   \<and> ((poses = None \<or> poses = Some []) \<longrightarrow>
      analyzePosture poses = \<lparr>status = ''good'', score = 0, issues = [''No pose detected'']\<rparr>)
   \<and> ((find (named ''nose'') (keypoints pose) = None \<or>
        find (named ''left_shoulder'') (keypoints pose) = None \<or>
        find (named ''right_shoulder'') (keypoints pose) = None \<or>
        find (named ''left_hip'') (keypoints pose) = None \<or>
        find (named ''right_hip'') (keypoints pose) = None) \<longrightarrow>
      analyzePosture (Some (pose # rest)) =
        \<lparr>status = ''good'', score = 0, issues = [''Insufficient keypoints detected'']\<rparr>)"
proof (intro conjI impI)
  assume "landmarks = None \<or> (\<exists>lms. landmarks = Some lms \<and> length lms < 10)"
  then show "classifyMood landmarks blendshapes = Inr ''Analyzing...''"
    by (auto simp: classifyMood_def)
next
  assume "poses = None \<or> poses = Some []"
  then show "analyzePosture poses =
      \<lparr>status = ''good'', score = 0, issues = [''No pose detected'']\<rparr>"
    by (auto simp: analyzePosture_def)
next
  assume "find (named ''nose'') (keypoints pose) = None \<or>
        find (named ''left_shoulder'') (keypoints pose) = None \<or>
        find (named ''right_shoulder'') (keypoints pose) = None \<or>
        find (named ''left_hip'') (keypoints pose) = None \<or>
        find (named ''right_hip'') (keypoints pose) = None"
  then have "requiredKeypoints pose = None"
    by (simp only: requiredKeypoints_None)
  then show "analyzePosture (Some (pose # rest)) =
      \<lparr>status = ''good'', score = 0, issues = [''Insufficient keypoints detected'']\<rparr>"
    by (simp add: analyzePosture_def)
qed

theorem insufficient_landmarks_witness:
  "classifyMood (Some [\<lparr>lm_x = Finite 1, lm_y = Finite 1, lm_z = Finite 0\<rparr>]) (Some [\<lparr>categories = None\<rparr>])
     = Inr ''Analyzing...''
   \<and> analyzePosture (Some []) =
       \<lparr>status = ''good'', score = 0, issues = [''No pose detected'']\<rparr>
   \<and> analyzePosture (Some
       [\<lparr>keypoints =
          [\<lparr>kp_x = Finite 100, kp_y = Finite 50, kp_name = Some ''nose''\<rparr>,
           \<lparr>kp_x = Finite 80, kp_y = Finite 100, kp_name = Some ''left_shoulder''\<rparr>,
           \<lparr>kp_x = Finite 120, kp_y = Finite 130, kp_name = Some ''right_shoulder''\<rparr>]\<rparr>]) =
       \<lparr>status = ''good'', score = 0, issues = [''Insufficient keypoints detected'']\<rparr>"
proof -
  let ?lms = "[\<lparr>lm_x = Finite 1, lm_y = Finite 1, lm_z = Finite 0\<rparr>]"
  let ?pose = "\<lparr>keypoints =
          [\<lparr>kp_x = Finite 100, kp_y = Finite 50, kp_name = Some ''nose''\<rparr>,
           \<lparr>kp_x = Finite 80, kp_y = Finite 100, kp_name = Some ''left_shoulder''\<rparr>,
           \<lparr>kp_x = Finite 120, kp_y = Finite 130, kp_name = Some ''right_shoulder''\<rparr>]\<rparr>"
  have few: "Some ?lms = None \<or> (\<exists>lms. Some ?lms = Some lms \<and> length lms < 10)"
    by simp
  have empty: "Some ([]::Pose list) = None \<or> Some ([]::Pose list) = Some []"
    by simp
  have missing: "find (named ''nose'') (keypoints ?pose) = None \<or>
        find (named ''left_shoulder'') (keypoints ?pose) = None \<or>
        find (named ''right_shoulder'') (keypoints ?pose) = None \<or>
        find (named ''left_hip'') (keypoints ?pose) = None \<or>
        find (named ''right_hip'') (keypoints ?pose) = None"
    by (simp add: named_def)
  note inst = insufficient_landmarks [of "Some ?lms" "Some [\<lparr>categories = None\<rparr>]" "Some []" ?pose "[]"]
  from inst few have 1: "classifyMood (Some ?lms) (Some [\<lparr>categories = None\<rparr>]) = Inr ''Analyzing...''"
    by blast
  from inst empty have 2: "analyzePosture (Some []) =
       \<lparr>status = ''good'', score = 0, issues = [''No pose detected'']\<rparr>"
    by blast
  from inst missing have 3: "analyzePosture (Some [?pose]) =
       \<lparr>status = ''good'', score = 0, issues = [''Insufficient keypoints detected'']\<rparr>"
    by blast
  from 1 2 3 show ?thesis by blast
qed

lemma blendshapeMood_labels:
  "blendshapeMood blendshapes = Inr (Some m) \<Longrightarrow> m = ''Happy'' \<or> m = ''Sad''"
  by (auto simp: blendshapeMood_def split: option.splits list.splits prod.splits if_splits)

lemma landmarkMood_labels:
  "landmarkMood lms smiling \<in> {''Happy'', ''Neutral'', ''Sad'', ''Stressed''}"
  by (simp add: landmarkMood_def split: option.splits prod.splits)

lemma classifyMood_labels:
  "classifyMood landmarks blendshapes = Inr m \<Longrightarrow>
   m \<in> {''Happy'', ''Neutral'', ''Sad'', ''Stressed'', ''Analyzing...''}"
  using landmarkMood_labels blendshapeMood_labels
  by (fastforce simp: classifyMood_def Let_def split: option.splits if_splits sum.splits)

lemma maxEntry_name:
  "fst (maxEntry xs n p) \<in> insert n (fst ` set xs)"
  by (induction xs n p rule: maxEntry.induct) auto

lemma emotionMap_labels:
  "n \<in> {''neutral'', ''happy'', ''sad'', ''angry'', ''fearful'', ''disgusted'', ''surprised''} \<Longrightarrow>
   (case emotionMap n of Some e \<Rightarrow> e | None \<Rightarrow> ''Neutral'')
     \<in> {''Happy'', ''Sad'', ''Angry'', ''Neutral'', ''Surprised'', ''Stressed''}"
  by (auto simp: emotionMap_def)

lemma detectEmotion_labels:
  assumes "detectEmotion detections = Some r"
  shows "expression r \<in> {''Happy'', ''Sad'', ''Angry'', ''Neutral'', ''Surprised'', ''Stressed''}"
proof -
  from assms obtain e where face: "detections = Face e"
    by (cases detections) (auto simp: detectEmotion_def)
  have "fst (maxEntry (entries e) ''neutral'' (neutral e))
      \<in> {''neutral'', ''happy'', ''sad'', ''angry'', ''fearful'', ''disgusted'', ''surprised''}"
    using maxEntry_name [of "entries e" "''neutral''" "neutral e"]
    by (auto simp: entries_def)
  from emotionMap_labels [OF this] assms face show ?thesis
    by (auto simp: detectEmotion_def split: prod.splits)
qed

lemma analyzePosture_labels:
  "status (analyzePosture poses)
     \<in> {''good'', ''slouching'', ''leaning_left'', ''leaning_right'', ''forward_head''}"
proof (cases poses)
  case None
  then show ?thesis by (simp add: analyzePosture_def)
next
  case (Some ps)
  show ?thesis
  proof (cases ps)
    case Nil
    with Some show ?thesis by (simp add: analyzePosture_def)
  next
    case (Cons p rest)
    show ?thesis
    proof (cases "requiredKeypoints p")
      case None
      with Some Cons show ?thesis by (simp add: analyzePosture_def)
    next
      case (Some found)
      obtain n ls rs lh rh where "found = (n, ls, rs, lh, rh)"
        by (cases found) auto
      with Some have "analyzePosture (Some (p # rest)) = analyzeKeypoints n ls rs lh rh"
        by (simp add: analyzePosture_complete)
      with \<open>poses = Some ps\<close> Cons show ?thesis
        by (simp add: analyzeKeypoints_status)
    qed
  qed
qed

text \<open>
  Claim C1, as stated, fails: \<open>detectEmotion\<close>, the mood classifier the camera loop
  calls, maps the expressions angry and surprised to the labels \<open>Angry\<close> and
  \<open>Surprised\<close>, which are not among Happy, Neutral, Sad, Stressed and Analyzing.
\<close>

theorem detectEmotion_angry_counterexample:
  "detectEmotion (Face \<lparr>neutral = 0.05, happy = 0.01, sad = 0.01, angry = 0.9,
                        fearful = 0.01, disgusted = 0.01, surprised = 0.01\<rparr>)
     = Some \<lparr>expression = ''Angry'', probability = 0.9\<rparr>
   \<and> ''Angry'' \<notin> {''Happy'', ''Neutral'', ''Sad'', ''Stressed'', ''Analyzing'', ''Analyzing...''}"
  by (simp add: detectEmotion_def entries_def emotionMap_def)

text \<open>
  Claim C1, amended. Every label \<open>classifyMood\<close> returns is one of Happy, Neutral, Sad,
  Stressed and \<open>Analyzing...\<close>; every label \<open>detectEmotion\<close> returns is one of Happy,
  Sad, Angry, Neutral, Surprised and Stressed; every status \<open>analyzePosture\<close> returns is
  one of good, slouching, leaning_left, leaning_right and forward_head.
\<close>

theorem classifier_labels:
  "(classifyMood landmarks blendshapes = Inr m \<longrightarrow>
      m \<in> {''Happy'', ''Neutral'', ''Sad'', ''Stressed'', ''Analyzing...''})
   \<and> (detectEmotion detections = Some r \<longrightarrow>
      expression r \<in> {''Happy'', ''Sad'', ''Angry'', ''Neutral'', ''Surprised'', ''Stressed''})
   \<and> status (analyzePosture poses)
      \<in> {''good'', ''slouching'', ''leaning_left'', ''leaning_right'', ''forward_head''}"
  by (intro conjI impI classifyMood_labels detectEmotion_labels analyzePosture_labels)

theorem classifier_labels_witness:
  "''Neutral'' \<in> {''Happy'', ''Neutral'', ''Sad'', ''Stressed'', ''Analyzing...''}
   \<and> classifyMood (Some (replicate 10 \<lparr>lm_x = Finite 1, lm_y = Finite 1, lm_z = Finite 0\<rparr>)) None = Inr ''Neutral''
   \<and> ''Surprised'' \<in> {''Happy'', ''Sad'', ''Angry'', ''Neutral'', ''Surprised'', ''Stressed''}
   \<and> detectEmotion (Face \<lparr>neutral = 0.1, happy = 0.1, sad = 0, angry = 0,
                           fearful = 0, disgusted = 0, surprised = 0.8\<rparr>)
       = Some \<lparr>expression = ''Surprised'', probability = 0.8\<rparr>"
proof -
  let ?lms = "replicate 10 \<lparr>lm_x = Finite 1, lm_y = Finite 1, lm_z = Finite 0\<rparr>"
  let ?e = "\<lparr>neutral = 0.1, happy = 0.1, sad = 0, angry = 0,
             fearful = 0, disgusted = 0, surprised = 0.8\<rparr>"
  let ?r = "\<lparr>expression = ''Surprised'', probability = 0.8\<rparr>"
  have c: "classifyMood (Some ?lms) None = Inr ''Neutral''"
    by (simp add: classifyMood_def blendshapeMood_def landmarkMood_def detectSmile_def)
  have d: "detectEmotion (Face ?e) = Some ?r"
    by (simp add: detectEmotion_def entries_def emotionMap_def)
  from classifier_labels [of "Some ?lms" None "''Neutral''" "Face ?e" ?r None] c d
  show ?thesis by simp
qed

text \<open>
  Claim C3. The result of a frame is a function of the landmarks, apart from the random
  draw: for the same landmarks and blendshapes, two evaluations of \<open>analyzeMood\<close> with
  any two values of \<open>Math.random()\<close> either both throw the same exception or return
  results with the same mood (the label of \<open>classifyMood\<close>), the same confidence and
  the same smile flag, differing at most in the encouragement string. \<open>analyzePosture\<close>
  reads no random value at all, and its result is fixed by the five required keypoints
  of the first pose.
\<close>

theorem frame_result_deterministic:
  "((\<exists>e. analyzeMood rnd landmarks blendshapes = Inl e \<and>
          analyzeMood rnd' landmarks blendshapes = Inl e) \<or>
    (\<exists>r r'. analyzeMood rnd landmarks blendshapes = Inr r \<and>
            analyzeMood rnd' landmarks blendshapes = Inr r' \<and>
            classifyMood landmarks blendshapes = Inr (mood r) \<and>
            mood r' = mood r \<and> confidence r' = confidence r \<and> isSmiling r' = isSmiling r \<and>
            r' = r\<lparr>encouragement := generateEncouragement rnd' (mood r)\<rparr>))
   \<and> (requiredKeypoints pose = requiredKeypoints pose' \<longrightarrow>
        analyzePosture (Some (pose # rest)) = analyzePosture (Some (pose' # rest')))"
proof (intro conjI impI)
  show "(\<exists>e. analyzeMood rnd landmarks blendshapes = Inl e \<and>
          analyzeMood rnd' landmarks blendshapes = Inl e) \<or>
    (\<exists>r r'. analyzeMood rnd landmarks blendshapes = Inr r \<and>
            analyzeMood rnd' landmarks blendshapes = Inr r' \<and>
            classifyMood landmarks blendshapes = Inr (mood r) \<and>
            mood r' = mood r \<and> confidence r' = confidence r \<and> isSmiling r' = isSmiling r \<and>
            r' = r\<lparr>encouragement := generateEncouragement rnd' (mood r)\<rparr>)"
  proof (cases "classifyMood landmarks blendshapes")
    case (Inl e)
    then show ?thesis by (simp add: analyzeMood_def)
  next
    case (Inr m)
    show ?thesis
    proof (cases landmarks)
      case None
      with Inr show ?thesis by (simp add: analyzeMood_def)
    next
      case (Some lms)
      with Inr show ?thesis by (simp add: analyzeMood_def)
    qed
  qed
next
  assume "requiredKeypoints pose = requiredKeypoints pose'"
  then show "analyzePosture (Some (pose # rest)) = analyzePosture (Some (pose' # rest'))"
    by (simp add: analyzePosture_def)
qed

theorem frame_result_deterministic_witness:
  "analyzePosture (Some
      [\<lparr>keypoints =
          [\<lparr>kp_x = Finite 100, kp_y = Finite 50, kp_name = Some ''nose''\<rparr>,
           \<lparr>kp_x = Finite 80, kp_y = Finite 100, kp_name = Some ''left_shoulder''\<rparr>,
           \<lparr>kp_x = Finite 120, kp_y = Finite 100, kp_name = Some ''right_shoulder''\<rparr>,
           \<lparr>kp_x = Finite 85, kp_y = Finite 300, kp_name = Some ''left_hip''\<rparr>,
           \<lparr>kp_x = Finite 115, kp_y = Finite 300, kp_name = Some ''right_hip''\<rparr>]\<rparr>])
   = analyzePosture (Some
      [\<lparr>keypoints =
          [\<lparr>kp_x = Finite 7, kp_y = Finite 9, kp_name = Some ''left_eye''\<rparr>,
           \<lparr>kp_x = Finite 100, kp_y = Finite 50, kp_name = Some ''nose''\<rparr>,
           \<lparr>kp_x = Finite 80, kp_y = Finite 100, kp_name = Some ''left_shoulder''\<rparr>,
           \<lparr>kp_x = Finite 120, kp_y = Finite 100, kp_name = Some ''right_shoulder''\<rparr>,
           \<lparr>kp_x = Finite 85, kp_y = Finite 300, kp_name = Some ''left_hip''\<rparr>,
           \<lparr>kp_x = Finite 115, kp_y = Finite 300, kp_name = Some ''right_hip''\<rparr>]\<rparr>,
       \<lparr>keypoints = []\<rparr>])
   \<and> (\<exists>r r'. analyzeMood 0 (Some (replicate 10 \<lparr>lm_x = Finite 1, lm_y = Finite 1, lm_z = Finite 0\<rparr>)) None = Inr r \<and>
         analyzeMood 0.5 (Some (replicate 10 \<lparr>lm_x = Finite 1, lm_y = Finite 1, lm_z = Finite 0\<rparr>)) None = Inr r' \<and>
         mood r' = mood r \<and> confidence r' = confidence r \<and> isSmiling r' = isSmiling r \<and>
         encouragement r' \<noteq> encouragement r)"
proof -
  let ?lms = "replicate 10 \<lparr>lm_x = Finite 1, lm_y = Finite 1, lm_z = Finite 0\<rparr>"
  let ?five = "[\<lparr>kp_x = Finite 100, kp_y = Finite 50, kp_name = Some ''nose''\<rparr>,
           \<lparr>kp_x = Finite 80, kp_y = Finite 100, kp_name = Some ''left_shoulder''\<rparr>,
           \<lparr>kp_x = Finite 120, kp_y = Finite 100, kp_name = Some ''right_shoulder''\<rparr>,
           \<lparr>kp_x = Finite 85, kp_y = Finite 300, kp_name = Some ''left_hip''\<rparr>,
           \<lparr>kp_x = Finite 115, kp_y = Finite 300, kp_name = Some ''right_hip''\<rparr>]"
  let ?p = "\<lparr>keypoints = ?five\<rparr>"
  let ?p' = "\<lparr>keypoints = \<lparr>kp_x = Finite 7, kp_y = Finite 9, kp_name = Some ''left_eye''\<rparr> # ?five\<rparr>"
  note inst = frame_result_deterministic
    [of 0 "Some ?lms" None "0.5" ?p ?p' "[]" "[\<lparr>keypoints = []\<rparr>]"]
  have same: "requiredKeypoints ?p = requiredKeypoints ?p'"
    by (simp add: requiredKeypoints_def named_def)
  have m: "classifyMood (Some ?lms) None = Inr ''Neutral''"
    by (simp add: classifyMood_def blendshapeMood_def landmarkMood_def detectSmile_def)
  have e0: "analyzeMood 0 (Some ?lms) None =
      Inr \<lparr>mood = ''Neutral'', confidence = 0.5, isSmiling = False,
           encouragement = Some (neutralPool ! 0)\<rparr>"
    by (simp add: analyzeMood_def m detectSmile_def generateEncouragement_def
        encouragements_def at_index_def neutralPool_def round_double_simps)
  have e1: "analyzeMood 0.5 (Some ?lms) None =
      Inr \<lparr>mood = ''Neutral'', confidence = 0.5, isSmiling = False,
           encouragement = Some (neutralPool ! 2)\<rparr>"
    by (simp add: analyzeMood_def m detectSmile_def generateEncouragement_def
        encouragements_def at_index_def neutralPool_def round_double_simps)
  have differ: "neutralPool ! 2 \<noteq> neutralPool ! 0"
    by (simp add: neutralPool_def)
  from inst same have posture: "analyzePosture (Some [?p]) = analyzePosture (Some [?p', \<lparr>keypoints = []\<rparr>])"
    by blast
  from inst e0 e1 differ have moodpart:
    "\<exists>r r'. analyzeMood 0 (Some ?lms) None = Inr r \<and> analyzeMood 0.5 (Some ?lms) None = Inr r' \<and>
         mood r' = mood r \<and> confidence r' = confidence r \<and> isSmiling r' = isSmiling r \<and>
         encouragement r' \<noteq> encouragement r"
    by simp
  from posture moodpart show ?thesis by blast
qed

section \<open>Thresholds\<close>

lemma status_by_flags:
  "((if a then ''slouching''
     else if b \<and> l then ''leaning_left''
     else if b then ''leaning_right''
     else if c then ''forward_head'' else ''good'') =
    (if a' then ''slouching''
     else if b' \<and> l' then ''leaning_left''
     else if b' then ''leaning_right''
     else if c' then ''forward_head'' else ''good''))
   = ((a \<and> a') \<or> (\<not> a \<and> \<not> a' \<and>
        ((b \<and> b' \<and> l = l') \<or> (\<not> b \<and> \<not> b' \<and> c = c'))))"
  by (cases a; cases a'; cases b; cases b'; cases l; cases l'; cases c; cases c'; simp)

lemma score_by_flags:
  "((100::int) - (if a then 30 else 0) - (if b then 20 else 0) - (if c then 25 else 0) =
    100 - (if a' then 30 else 0) - (if b' then 20 else 0) - (if c' then 25 else 0))
   = (a = a' \<and> b = b' \<and> c = c')"
  by (cases a; cases a'; cases b; cases b'; cases c; cases c'; simp)

lemma classifyMood_eyebrows:
  assumes "length lms \<ge> 301" and "\<not> detectSmile (Some lms)"
    and "blendshapeMood blendshapes = Inr None"
    and "js_gt (faceHeight (lms ! 1) (lms ! 152)) (Finite 0)"
  shows "classifyMood (Some lms) blendshapes =
     Inr (if js_lt (eyebrowRatio (lms ! 70) (lms ! 300) (lms ! 1) (lms ! 152)) (js_lit 0.3) then ''Stressed''
          else if js_lt (eyebrowRatio (lms ! 70) (lms ! 300) (lms ! 1) (lms ! 152)) (js_lit 0.4) then ''Sad''
          else ''Neutral'')"
  using assms by (simp add: classifyMood_def landmarkMood_def at_index_def)

text \<open>
  Claim C4, as stated, fails: the status is chosen by precedence, so a threshold of lower
  precedence can be crossed without any change of label. Two poses with the same torso
  length (100, slouching) and the same head offset, one with level shoulders and one
  with a shoulder difference of 30, both get the status slouching.
\<close>

theorem masked_threshold_counterexample:
  "torsoLength \<lparr>kp_x = Finite 80, kp_y = Finite 100, kp_name = Some ''left_shoulder''\<rparr>
               \<lparr>kp_x = Finite 120, kp_y = Finite 100, kp_name = Some ''right_shoulder''\<rparr>
               \<lparr>kp_x = Finite 85, kp_y = Finite 200, kp_name = Some ''left_hip''\<rparr>
               \<lparr>kp_x = Finite 115, kp_y = Finite 200, kp_name = Some ''right_hip''\<rparr>
   = torsoLength \<lparr>kp_x = Finite 80, kp_y = Finite 115, kp_name = Some ''left_shoulder''\<rparr>
               \<lparr>kp_x = Finite 120, kp_y = Finite 85, kp_name = Some ''right_shoulder''\<rparr>
               \<lparr>kp_x = Finite 85, kp_y = Finite 200, kp_name = Some ''left_hip''\<rparr>
               \<lparr>kp_x = Finite 115, kp_y = Finite 200, kp_name = Some ''right_hip''\<rparr>
   \<and> \<not> js_gt (shoulderDiff
               \<lparr>kp_x = Finite 80, kp_y = Finite 100, kp_name = Some ''left_shoulder''\<rparr>
               \<lparr>kp_x = Finite 120, kp_y = Finite 100, kp_name = Some ''right_shoulder''\<rparr>)
        (Finite 20)
   \<and> js_gt (shoulderDiff
               \<lparr>kp_x = Finite 80, kp_y = Finite 115, kp_name = Some ''left_shoulder''\<rparr>
               \<lparr>kp_x = Finite 120, kp_y = Finite 85, kp_name = Some ''right_shoulder''\<rparr>)
        (Finite 20)
   \<and> status (analyzePosture (Some
        [\<lparr>keypoints =
           [\<lparr>kp_x = Finite 100, kp_y = Finite 50, kp_name = Some ''nose''\<rparr>,
            \<lparr>kp_x = Finite 80, kp_y = Finite 100, kp_name = Some ''left_shoulder''\<rparr>,
            \<lparr>kp_x = Finite 120, kp_y = Finite 100, kp_name = Some ''right_shoulder''\<rparr>,
            \<lparr>kp_x = Finite 85, kp_y = Finite 200, kp_name = Some ''left_hip''\<rparr>,
            \<lparr>kp_x = Finite 115, kp_y = Finite 200, kp_name = Some ''right_hip''\<rparr>]\<rparr>]))
     = status (analyzePosture (Some
        [\<lparr>keypoints =
           [\<lparr>kp_x = Finite 100, kp_y = Finite 50, kp_name = Some ''nose''\<rparr>,
            \<lparr>kp_x = Finite 80, kp_y = Finite 115, kp_name = Some ''left_shoulder''\<rparr>,
            \<lparr>kp_x = Finite 120, kp_y = Finite 85, kp_name = Some ''right_shoulder''\<rparr>,
            \<lparr>kp_x = Finite 85, kp_y = Finite 200, kp_name = Some ''left_hip''\<rparr>,
            \<lparr>kp_x = Finite 115, kp_y = Finite 200, kp_name = Some ''right_hip''\<rparr>]\<rparr>]))
   \<and> status (analyzePosture (Some
        [\<lparr>keypoints =
           [\<lparr>kp_x = Finite 100, kp_y = Finite 50, kp_name = Some ''nose''\<rparr>,
            \<lparr>kp_x = Finite 80, kp_y = Finite 115, kp_name = Some ''left_shoulder''\<rparr>,
            \<lparr>kp_x = Finite 120, kp_y = Finite 85, kp_name = Some ''right_shoulder''\<rparr>,
            \<lparr>kp_x = Finite 85, kp_y = Finite 200, kp_name = Some ''left_hip''\<rparr>,
            \<lparr>kp_x = Finite 115, kp_y = Finite 200, kp_name = Some ''right_hip''\<rparr>]\<rparr>])) = ''slouching''"
  by (simp add: analyzePosture_def requiredKeypoints_def named_def analyzeKeypoints_status
      torsoLength_def shoulderDiff_def headForward_def js_sub_def js_gt_def
      round_double_simps)

text \<open>
  Claim C4, amended. The label depends on each measured quantity, as the source
  computes it in double arithmetic, only through the side of its threshold, so varying
  one quantity across its threshold changes the label at most once, and exactly once
  when no condition of higher precedence holds. For two poses with the five required
  keypoints: a torso length below 150 in one and not in the other gives different
  statuses; with neither torso length below 150, a shoulder difference above 20 in one
  and not in the other gives different statuses; with neither torso length below 150
  and neither shoulder difference above 20, a head offset above 30 in one and not in the
  other gives different statuses; poses on the same side of all three thresholds and
  leaning the same way (the left shoulder lower than the right in both or in neither)
  get the same status; two poses with torso length below 150 get the same status
  whatever the other quantities are; and the scores are equal exactly when the poses
  are on the same side of all three thresholds. For a face with at least 301 landmarks,
  no smile and no label from the blendshapes, and a face height (the distance in y
  between nose tip and chin) above 0, the mood is Stressed for an eyebrow ratio below
  0.3, Sad for a ratio not below 0.3 and below 0.4, and Neutral otherwise; a label from
  the blendshapes is returned whatever the eyebrow ratio is.
\<close>

theorem threshold_crossings:
  "(requiredKeypoints pose = Some (n, ls, rs, lh, rh) \<and>
    requiredKeypoints pose' = Some (n', ls', rs', lh', rh') \<longrightarrow>
      (js_lt (torsoLength ls rs lh rh) (Finite 150) \<and> \<not> js_lt (torsoLength ls' rs' lh' rh') (Finite 150) \<longrightarrow>
         status (analyzePosture (Some (pose # rest))) \<noteq> status (analyzePosture (Some (pose' # rest'))))
    \<and> (\<not> js_lt (torsoLength ls rs lh rh) (Finite 150) \<and> \<not> js_lt (torsoLength ls' rs' lh' rh') (Finite 150) \<and>
        \<not> js_gt (shoulderDiff ls rs) (Finite 20) \<and> js_gt (shoulderDiff ls' rs') (Finite 20) \<longrightarrow>
         status (analyzePosture (Some (pose # rest))) \<noteq> status (analyzePosture (Some (pose' # rest'))))
    \<and> (\<not> js_lt (torsoLength ls rs lh rh) (Finite 150) \<and> \<not> js_lt (torsoLength ls' rs' lh' rh') (Finite 150) \<and>
        \<not> js_gt (shoulderDiff ls rs) (Finite 20) \<and> \<not> js_gt (shoulderDiff ls' rs') (Finite 20) \<and>
        \<not> js_gt (headForward n ls rs) (Finite 30) \<and> js_gt (headForward n' ls' rs') (Finite 30) \<longrightarrow>
         status (analyzePosture (Some (pose # rest))) \<noteq> status (analyzePosture (Some (pose' # rest'))))
    \<and> ((js_lt (torsoLength ls rs lh rh) (Finite 150)) = (js_lt (torsoLength ls' rs' lh' rh') (Finite 150)) \<and>
        (js_gt (shoulderDiff ls rs) (Finite 20)) = (js_gt (shoulderDiff ls' rs') (Finite 20)) \<and>
        js_gt (kp_y ls) (kp_y rs) = js_gt (kp_y ls') (kp_y rs') \<and>
        (js_gt (headForward n ls rs) (Finite 30)) = (js_gt (headForward n' ls' rs') (Finite 30)) \<longrightarrow>
         status (analyzePosture (Some (pose # rest))) = status (analyzePosture (Some (pose' # rest'))))
    \<and> (js_lt (torsoLength ls rs lh rh) (Finite 150) \<and> js_lt (torsoLength ls' rs' lh' rh') (Finite 150) \<longrightarrow>
         status (analyzePosture (Some (pose # rest))) = status (analyzePosture (Some (pose' # rest'))))
    \<and> (score (analyzePosture (Some (pose # rest))) = score (analyzePosture (Some (pose' # rest'))))
        = ((js_lt (torsoLength ls rs lh rh) (Finite 150)) = (js_lt (torsoLength ls' rs' lh' rh') (Finite 150)) \<and>
           (js_gt (shoulderDiff ls rs) (Finite 20)) = (js_gt (shoulderDiff ls' rs') (Finite 20)) \<and>
           (js_gt (headForward n ls rs) (Finite 30)) = (js_gt (headForward n' ls' rs') (Finite 30))))
   \<and> (length lms \<ge> 301 \<and> \<not> detectSmile (Some lms) \<and> blendshapeMood blendshapes = Inr None \<and>
       js_gt (faceHeight (lms ! 1) (lms ! 152)) (Finite 0) \<longrightarrow>
         classifyMood (Some lms) blendshapes =
           Inr (if js_lt (eyebrowRatio (lms ! 70) (lms ! 300) (lms ! 1) (lms ! 152)) (js_lit 0.3) then ''Stressed''
                else if js_lt (eyebrowRatio (lms ! 70) (lms ! 300) (lms ! 1) (lms ! 152)) (js_lit 0.4) then ''Sad''
                else ''Neutral''))
   \<and> (length lms \<ge> 10 \<and> blendshapeMood blendshapes = Inr (Some m) \<longrightarrow>
         classifyMood (Some lms) blendshapes = Inr m)"
proof (intro conjI)
  show "requiredKeypoints pose = Some (n, ls, rs, lh, rh) \<and>
    requiredKeypoints pose' = Some (n', ls', rs', lh', rh') \<longrightarrow>
      (js_lt (torsoLength ls rs lh rh) (Finite 150) \<and> \<not> js_lt (torsoLength ls' rs' lh' rh') (Finite 150) \<longrightarrow>
         status (analyzePosture (Some (pose # rest))) \<noteq> status (analyzePosture (Some (pose' # rest'))))
    \<and> (\<not> js_lt (torsoLength ls rs lh rh) (Finite 150) \<and> \<not> js_lt (torsoLength ls' rs' lh' rh') (Finite 150) \<and>
        \<not> js_gt (shoulderDiff ls rs) (Finite 20) \<and> js_gt (shoulderDiff ls' rs') (Finite 20) \<longrightarrow>
         status (analyzePosture (Some (pose # rest))) \<noteq> status (analyzePosture (Some (pose' # rest'))))
    \<and> (\<not> js_lt (torsoLength ls rs lh rh) (Finite 150) \<and> \<not> js_lt (torsoLength ls' rs' lh' rh') (Finite 150) \<and>
        \<not> js_gt (shoulderDiff ls rs) (Finite 20) \<and> \<not> js_gt (shoulderDiff ls' rs') (Finite 20) \<and>
        \<not> js_gt (headForward n ls rs) (Finite 30) \<and> js_gt (headForward n' ls' rs') (Finite 30) \<longrightarrow>
         status (analyzePosture (Some (pose # rest))) \<noteq> status (analyzePosture (Some (pose' # rest'))))
    \<and> ((js_lt (torsoLength ls rs lh rh) (Finite 150)) = (js_lt (torsoLength ls' rs' lh' rh') (Finite 150)) \<and>
        (js_gt (shoulderDiff ls rs) (Finite 20)) = (js_gt (shoulderDiff ls' rs') (Finite 20)) \<and>
        js_gt (kp_y ls) (kp_y rs) = js_gt (kp_y ls') (kp_y rs') \<and>
        (js_gt (headForward n ls rs) (Finite 30)) = (js_gt (headForward n' ls' rs') (Finite 30)) \<longrightarrow>
         status (analyzePosture (Some (pose # rest))) = status (analyzePosture (Some (pose' # rest'))))
    \<and> (js_lt (torsoLength ls rs lh rh) (Finite 150) \<and> js_lt (torsoLength ls' rs' lh' rh') (Finite 150) \<longrightarrow>
         status (analyzePosture (Some (pose # rest))) = status (analyzePosture (Some (pose' # rest'))))
    \<and> (score (analyzePosture (Some (pose # rest))) = score (analyzePosture (Some (pose' # rest'))))
        = ((js_lt (torsoLength ls rs lh rh) (Finite 150)) = (js_lt (torsoLength ls' rs' lh' rh') (Finite 150)) \<and>
           (js_gt (shoulderDiff ls rs) (Finite 20)) = (js_gt (shoulderDiff ls' rs') (Finite 20)) \<and>
           (js_gt (headForward n ls rs) (Finite 30)) = (js_gt (headForward n' ls' rs') (Finite 30)))"
  proof
    assume found: "requiredKeypoints pose = Some (n, ls, rs, lh, rh) \<and>
      requiredKeypoints pose' = Some (n', ls', rs', lh', rh')"
    have r: "analyzePosture (Some (pose # rest)) = analyzeKeypoints n ls rs lh rh"
      and r': "analyzePosture (Some (pose' # rest')) = analyzeKeypoints n' ls' rs' lh' rh'"
      using found by (simp_all add: analyzePosture_complete)
    have st: "(status (analyzePosture (Some (pose # rest))) =
               status (analyzePosture (Some (pose' # rest')))) =
      ((js_lt (torsoLength ls rs lh rh) (Finite 150) \<and> js_lt (torsoLength ls' rs' lh' rh') (Finite 150)) \<or>
       (\<not> js_lt (torsoLength ls rs lh rh) (Finite 150) \<and> \<not> js_lt (torsoLength ls' rs' lh' rh') (Finite 150) \<and>
        ((js_gt (shoulderDiff ls rs) (Finite 20) \<and> js_gt (shoulderDiff ls' rs') (Finite 20) \<and>
          js_gt (kp_y ls) (kp_y rs) = js_gt (kp_y ls') (kp_y rs')) \<or>
         (\<not> js_gt (shoulderDiff ls rs) (Finite 20) \<and> \<not> js_gt (shoulderDiff ls' rs') (Finite 20) \<and>
          (js_gt (headForward n ls rs) (Finite 30)) = (js_gt (headForward n' ls' rs') (Finite 30))))))"
      unfolding r r' analyzeKeypoints_status by (rule status_by_flags)
    have sc: "(score (analyzePosture (Some (pose # rest))) =
               score (analyzePosture (Some (pose' # rest')))) =
      ((js_lt (torsoLength ls rs lh rh) (Finite 150)) = (js_lt (torsoLength ls' rs' lh' rh') (Finite 150)) \<and>
       (js_gt (shoulderDiff ls rs) (Finite 20)) = (js_gt (shoulderDiff ls' rs') (Finite 20)) \<and>
       (js_gt (headForward n ls rs) (Finite 30)) = (js_gt (headForward n' ls' rs') (Finite 30)))"
      unfolding r r' analyzeKeypoints_score by (rule score_by_flags)
    show "(js_lt (torsoLength ls rs lh rh) (Finite 150) \<and> \<not> js_lt (torsoLength ls' rs' lh' rh') (Finite 150) \<longrightarrow>
         status (analyzePosture (Some (pose # rest))) \<noteq> status (analyzePosture (Some (pose' # rest'))))
    \<and> (\<not> js_lt (torsoLength ls rs lh rh) (Finite 150) \<and> \<not> js_lt (torsoLength ls' rs' lh' rh') (Finite 150) \<and>
        \<not> js_gt (shoulderDiff ls rs) (Finite 20) \<and> js_gt (shoulderDiff ls' rs') (Finite 20) \<longrightarrow>
         status (analyzePosture (Some (pose # rest))) \<noteq> status (analyzePosture (Some (pose' # rest'))))
    \<and> (\<not> js_lt (torsoLength ls rs lh rh) (Finite 150) \<and> \<not> js_lt (torsoLength ls' rs' lh' rh') (Finite 150) \<and>
        \<not> js_gt (shoulderDiff ls rs) (Finite 20) \<and> \<not> js_gt (shoulderDiff ls' rs') (Finite 20) \<and>
        \<not> js_gt (headForward n ls rs) (Finite 30) \<and> js_gt (headForward n' ls' rs') (Finite 30) \<longrightarrow>
         status (analyzePosture (Some (pose # rest))) \<noteq> status (analyzePosture (Some (pose' # rest'))))
    \<and> ((js_lt (torsoLength ls rs lh rh) (Finite 150)) = (js_lt (torsoLength ls' rs' lh' rh') (Finite 150)) \<and>
        (js_gt (shoulderDiff ls rs) (Finite 20)) = (js_gt (shoulderDiff ls' rs') (Finite 20)) \<and>
        js_gt (kp_y ls) (kp_y rs) = js_gt (kp_y ls') (kp_y rs') \<and>
        (js_gt (headForward n ls rs) (Finite 30)) = (js_gt (headForward n' ls' rs') (Finite 30)) \<longrightarrow>
         status (analyzePosture (Some (pose # rest))) = status (analyzePosture (Some (pose' # rest'))))
    \<and> (js_lt (torsoLength ls rs lh rh) (Finite 150) \<and> js_lt (torsoLength ls' rs' lh' rh') (Finite 150) \<longrightarrow>
         status (analyzePosture (Some (pose # rest))) = status (analyzePosture (Some (pose' # rest'))))
    \<and> (score (analyzePosture (Some (pose # rest))) = score (analyzePosture (Some (pose' # rest'))))
        = ((js_lt (torsoLength ls rs lh rh) (Finite 150)) = (js_lt (torsoLength ls' rs' lh' rh') (Finite 150)) \<and>
           (js_gt (shoulderDiff ls rs) (Finite 20)) = (js_gt (shoulderDiff ls' rs') (Finite 20)) \<and>
           (js_gt (headForward n ls rs) (Finite 30)) = (js_gt (headForward n' ls' rs') (Finite 30)))"
      unfolding st sc by auto
  qed
next
  show "length lms \<ge> 301 \<and> \<not> detectSmile (Some lms) \<and> blendshapeMood blendshapes = Inr None \<and>
       js_gt (faceHeight (lms ! 1) (lms ! 152)) (Finite 0) \<longrightarrow>
         classifyMood (Some lms) blendshapes =
           Inr (if js_lt (eyebrowRatio (lms ! 70) (lms ! 300) (lms ! 1) (lms ! 152)) (js_lit 0.3) then ''Stressed''
                else if js_lt (eyebrowRatio (lms ! 70) (lms ! 300) (lms ! 1) (lms ! 152)) (js_lit 0.4) then ''Sad''
                else ''Neutral'')"
    using classifyMood_eyebrows by blast
next
  show "length lms \<ge> 10 \<and> blendshapeMood blendshapes = Inr (Some m) \<longrightarrow>
         classifyMood (Some lms) blendshapes = Inr m"
    by (simp add: classifyMood_def)
qed

theorem threshold_crossings_witness:
  "status (analyzePosture (Some
      [\<lparr>keypoints =
          [\<lparr>kp_x = Finite 100, kp_y = Finite 50, kp_name = Some ''nose''\<rparr>,
           \<lparr>kp_x = Finite 80, kp_y = Finite 100, kp_name = Some ''left_shoulder''\<rparr>,
           \<lparr>kp_x = Finite 120, kp_y = Finite 100, kp_name = Some ''right_shoulder''\<rparr>,
           \<lparr>kp_x = Finite 85, kp_y = Finite 249, kp_name = Some ''left_hip''\<rparr>,
           \<lparr>kp_x = Finite 115, kp_y = Finite 249, kp_name = Some ''right_hip''\<rparr>]\<rparr>]))
   \<noteq> status (analyzePosture (Some
      [\<lparr>keypoints =
          [\<lparr>kp_x = Finite 100, kp_y = Finite 50, kp_name = Some ''nose''\<rparr>,
           \<lparr>kp_x = Finite 80, kp_y = Finite 100, kp_name = Some ''left_shoulder''\<rparr>,
           \<lparr>kp_x = Finite 120, kp_y = Finite 100, kp_name = Some ''right_shoulder''\<rparr>,
           \<lparr>kp_x = Finite 85, kp_y = Finite 250, kp_name = Some ''left_hip''\<rparr>,
           \<lparr>kp_x = Finite 115, kp_y = Finite 250, kp_name = Some ''right_hip''\<rparr>]\<rparr>]))
   \<and> classifyMood
        (Some ((replicate 301 \<lparr>lm_x = Finite 0, lm_y = Finite 0, lm_z = Finite 0\<rparr>)
           [1 := \<lparr>lm_x = Finite 0, lm_y = Finite 10, lm_z = Finite 0\<rparr>,
            70 := \<lparr>lm_x = Finite 0, lm_y = Finite 7, lm_z = Finite 0\<rparr>,
            300 := \<lparr>lm_x = Finite 0, lm_y = Finite 7, lm_z = Finite 0\<rparr>,
            152 := \<lparr>lm_x = Finite 0, lm_y = Finite 20, lm_z = Finite 0\<rparr>])) None = Inr ''Sad''
   \<and> classifyMood
        (Some ((replicate 301 \<lparr>lm_x = Finite 0, lm_y = Finite 0, lm_z = Finite 0\<rparr>)
           [1 := \<lparr>lm_x = Finite 0, lm_y = Finite 10, lm_z = Finite 0\<rparr>,
            70 := \<lparr>lm_x = Finite 0, lm_y = Finite 7, lm_z = Finite 0\<rparr>,
            300 := \<lparr>lm_x = Finite 0, lm_y = Finite 7, lm_z = Finite 0\<rparr>,
            152 := \<lparr>lm_x = Finite 0, lm_y = Finite 20, lm_z = Finite 0\<rparr>]))
        (Some [\<lparr>categories = Some [\<lparr>categoryName = ''mouthSmile'', cat_score = 0.9\<rparr>]\<rparr>])
      = Inr ''Happy''"
proof -
  let ?n = "\<lparr>kp_x = Finite 100, kp_y = Finite 50, kp_name = Some ''nose''\<rparr>"
  let ?ls = "\<lparr>kp_x = Finite 80, kp_y = Finite 100, kp_name = Some ''left_shoulder''\<rparr>"
  let ?rs = "\<lparr>kp_x = Finite 120, kp_y = Finite 100, kp_name = Some ''right_shoulder''\<rparr>"
  let ?lh = "\<lparr>kp_x = Finite 85, kp_y = Finite 249, kp_name = Some ''left_hip''\<rparr>"
  let ?rh = "\<lparr>kp_x = Finite 115, kp_y = Finite 249, kp_name = Some ''right_hip''\<rparr>"
  let ?lh' = "\<lparr>kp_x = Finite 85, kp_y = Finite 250, kp_name = Some ''left_hip''\<rparr>"
  let ?rh' = "\<lparr>kp_x = Finite 115, kp_y = Finite 250, kp_name = Some ''right_hip''\<rparr>"
  let ?p = "\<lparr>keypoints = [?n, ?ls, ?rs, ?lh, ?rh]\<rparr>"
  let ?p' = "\<lparr>keypoints = [?n, ?ls, ?rs, ?lh', ?rh']\<rparr>"
  let ?lms = "(replicate 301 \<lparr>lm_x = Finite 0, lm_y = Finite 0, lm_z = Finite 0\<rparr>)
           [1 := \<lparr>lm_x = Finite 0, lm_y = Finite 10, lm_z = Finite 0\<rparr>,
            70 := \<lparr>lm_x = Finite 0, lm_y = Finite 7, lm_z = Finite 0\<rparr>,
            300 := \<lparr>lm_x = Finite 0, lm_y = Finite 7, lm_z = Finite 0\<rparr>,
            152 := \<lparr>lm_x = Finite 0, lm_y = Finite 20, lm_z = Finite 0\<rparr>]"
  let ?smile = "Some [\<lparr>categories = Some [\<lparr>categoryName = ''mouthSmile'', cat_score = 0.9\<rparr>]\<rparr>]"
  have found: "requiredKeypoints ?p = Some (?n, ?ls, ?rs, ?lh, ?rh) \<and>
      requiredKeypoints ?p' = Some (?n, ?ls, ?rs, ?lh', ?rh')"
    by (simp add: requiredKeypoints_def named_def)
  have crossing: "js_lt (torsoLength ?ls ?rs ?lh ?rh) (Finite 150) \<and> \<not> js_lt (torsoLength ?ls ?rs ?lh' ?rh') (Finite 150)"
    by (simp add: torsoLength_def js_sub_def round_double_simps)
  have face: "length ?lms \<ge> 301 \<and> \<not> detectSmile (Some ?lms) \<and> blendshapeMood None = Inr None \<and>
       js_gt (faceHeight (?lms ! 1) (?lms ! 152)) (Finite 0)"
    by (simp add: detectSmile_def blendshapeMood_def faceHeight_def js_sub_def js_gt_def
        round_double_simps)
  have ratio: "\<not> js_lt (eyebrowRatio (?lms ! 70) (?lms ! 300) (?lms ! 1) (?lms ! 152)) (js_lit 0.3)"
      "js_lt (eyebrowRatio (?lms ! 70) (?lms ! 300) (?lms ! 1) (?lms ! 152)) (js_lit 0.4)"
    by (simp_all add: eyebrowRatio_def faceHeight_def js_sub_def js_lit_simps
        round_double_simps)
  have verdict: "length ?lms \<ge> 10 \<and> blendshapeMood ?smile = Inr (Some ''Happy'')"
    by (simp add: blendshapeMood_def js_gt_def js_lit_simps)
  from threshold_crossings
      [of ?p ?n ?ls ?rs ?lh ?rh ?p' ?n ?ls ?rs ?lh' ?rh' "[]" "[]" ?lms None "''Happy''"]
    found crossing face
  have 1: "status (analyzePosture (Some [?p])) \<noteq> status (analyzePosture (Some [?p']))"
    and 2: "classifyMood (Some ?lms) None =
           Inr (if js_lt (eyebrowRatio (?lms ! 70) (?lms ! 300) (?lms ! 1) (?lms ! 152)) (js_lit 0.3) then ''Stressed''
                else if js_lt (eyebrowRatio (?lms ! 70) (?lms ! 300) (?lms ! 1) (?lms ! 152)) (js_lit 0.4) then ''Sad''
                else ''Neutral'')"
    by blast+
  from threshold_crossings
      [of ?p ?n ?ls ?rs ?lh ?rh ?p' ?n ?ls ?rs ?lh' ?rh' "[]" "[]" ?lms ?smile "''Happy''"]
    verdict
  have 3: "classifyMood (Some ?lms) ?smile = Inr ''Happy''"
    by blast
  from 2 ratio have 4: "classifyMood (Some ?lms) None = Inr ''Sad''"
    by (simp only: if_False if_True)
  from 1 4 3 show ?thesis by blast
qed

section \<open>The rolling history\<close>

lemma pushHistory_cases:
  "pushHistory entry prev =
     (if prev = [] \<or> time (last prev) \<noteq> time entry \<or> label (last prev) \<noteq> label entry
      then drop (length prev - 19) prev @ [entry]
      else prev)"
proof (cases "prev = []")
  case True
  then show ?thesis by (simp add: pushHistory_def at_index_def slice_last_def)
next
  case False
  then have "at_index prev (length prev - 1) = Some (last prev)"
    by (simp add: at_index_def last_conv_nth)
  with False show ?thesis by (simp add: pushHistory_def slice_last_def)
qed

lemma last19_length:
  "length (drop (length prev - 19) prev @ [entry]) \<le> 20"
  by simp

lemma pushHistory_length:
  "length prev \<le> 20 \<Longrightarrow> length (pushHistory entry prev) \<le> 20"
proof (cases "prev = [] \<or> time (last prev) \<noteq> time entry \<or> label (last prev) \<noteq> label entry")
  case True
  then have "pushHistory entry prev = drop (length prev - 19) prev @ [entry]"
    by (simp only: pushHistory_cases if_True)
  then show ?thesis by (simp only: last19_length)
next
  case False
  assume "length prev \<le> 20"
  with False show ?thesis by (simp only: pushHistory_cases if_False)
qed

lemma cameraStep_history:
  "length (history s) \<le> 20 \<Longrightarrow> length (history (cameraStep s ev)) \<le> 20"
proof (cases ev)
  case (StartAnalysis modelsLoad webcamReady)
  assume "length (history s) \<le> 20"
  with StartAnalysis show ?thesis by (simp add: startAnalysis_def Let_def)
next
  case StopAnalysis
  assume "length (history s) \<le> 20"
  with StopAnalysis show ?thesis by (simp add: stopAnalysis_def)
next
  case (MoodFrame currentTime detections)
  assume "length (history s) \<le> 20"
  with MoodFrame show ?thesis
    by (simp add: analyzeMoodFrame_def pushHistory_length split: option.splits)
next
  case (PostureFrame currentTime poses)
  assume "length (history s) \<le> 20"
  with PostureFrame show ?thesis
    by (simp add: analyzePostureFrame_def pushHistory_length Let_def split: option.splits list.splits)
qed

lemma foldl_cameraStep_history:
  "length (history s) \<le> 20 \<Longrightarrow> length (history (foldl cameraStep s evs)) \<le> 20"
  by (induction evs arbitrary: s) (simp_all add: cameraStep_history)

text \<open>
  Claim C6. After any sequence of frames and button presses from the initial state the
  history holds at most 20 entries. The updater of both loops leaves the history as it
  is when its last entry has the time and the label of the new one (the source's
  throttle: no update); otherwise, on every update, the result is the last 19 entries
  of the previous history (all of them when there are fewer) followed by the new entry.
  When \<open>startAnalysis\<close> passes its two guards (models loaded, webcam ready), analysis
  starts and the history is reset to empty.
\<close>

theorem history_bounded:
  "length (history (cameraRun evs)) \<le> 20
   \<and> (prev = [] \<or> time (last prev) \<noteq> time entry \<or> label (last prev) \<noteq> label entry \<longrightarrow>
        pushHistory entry prev = drop (length prev - 19) prev @ [entry] \<and>
        length (pushHistory entry prev) \<le> 20)
   \<and> (prev \<noteq> [] \<and> time (last prev) = time entry \<and> label (last prev) = label entry \<longrightarrow>
        pushHistory entry prev = prev)
   \<and> ((isModelLoaded s \<or> modelsLoad) \<and> webcamReady \<longrightarrow>
        isAnalyzing (startAnalysis modelsLoad webcamReady s) \<and>
        history (startAnalysis modelsLoad webcamReady s) = [])"
proof (intro conjI impI)
  show "length (history (cameraRun evs)) \<le> 20"
    unfolding cameraRun_def
    by (rule foldl_cameraStep_history) (simp add: initialCameraState_def)
next
  assume "prev = [] \<or> time (last prev) \<noteq> time entry \<or> label (last prev) \<noteq> label entry"
  then show "pushHistory entry prev = drop (length prev - 19) prev @ [entry]"
    by (simp add: pushHistory_cases)
next
  assume "prev = [] \<or> time (last prev) \<noteq> time entry \<or> label (last prev) \<noteq> label entry"
  then have "pushHistory entry prev = drop (length prev - 19) prev @ [entry]"
    by (simp add: pushHistory_cases)
  then show "length (pushHistory entry prev) \<le> 20"
    by (simp only: last19_length)
next
  assume "prev \<noteq> [] \<and> time (last prev) = time entry \<and> label (last prev) = label entry"
  then show "pushHistory entry prev = prev"
    by (simp add: pushHistory_cases)
next
  assume "(isModelLoaded s \<or> modelsLoad) \<and> webcamReady"
  then show "isAnalyzing (startAnalysis modelsLoad webcamReady s)"
    by (auto simp: startAnalysis_def Let_def)
next
  assume "(isModelLoaded s \<or> modelsLoad) \<and> webcamReady"
  then show "history (startAnalysis modelsLoad webcamReady s) = []"
    by (auto simp: startAnalysis_def Let_def)
qed

theorem history_bounded_witness:
  "pushHistory \<lparr>time = ''10:00:21'', label = ''Happy'', entry_type = ''mood'', suggestion = None\<rparr>
      (replicate 20 \<lparr>time = ''10:00:20'', label = ''Sad'', entry_type = ''mood'', suggestion = None\<rparr>)
    = replicate 19 \<lparr>time = ''10:00:20'', label = ''Sad'', entry_type = ''mood'', suggestion = None\<rparr>
        @ [\<lparr>time = ''10:00:21'', label = ''Happy'', entry_type = ''mood'', suggestion = None\<rparr>]
   \<and> pushHistory \<lparr>time = ''10:00:20'', label = ''Sad'', entry_type = ''mood'', suggestion = None\<rparr>
      (replicate 20 \<lparr>time = ''10:00:20'', label = ''Sad'', entry_type = ''mood'', suggestion = None\<rparr>)
    = replicate 20 \<lparr>time = ''10:00:20'', label = ''Sad'', entry_type = ''mood'', suggestion = None\<rparr>
   \<and> history (startAnalysis True True
        \<lparr>isAnalyzing = False, isModelLoaded = False,
         history = [\<lparr>time = ''10:00:20'', label = ''Sad'', entry_type = ''mood'',
                     suggestion = None\<rparr>]\<rparr>) = []"
proof -
  let ?old = "\<lparr>time = ''10:00:20'', label = ''Sad'', entry_type = ''mood'', suggestion = None\<rparr>"
  let ?new = "\<lparr>time = ''10:00:21'', label = ''Happy'', entry_type = ''mood'', suggestion = None\<rparr>"
  let ?s = "\<lparr>isAnalyzing = False, isModelLoaded = False, history = [?old]\<rparr>"
  have changed: "replicate 20 ?old = [] \<or> time (last (replicate 20 ?old)) \<noteq> time ?new \<or>
      label (last (replicate 20 ?old)) \<noteq> label ?new"
    by simp
  have same: "replicate 20 ?old \<noteq> [] \<and> time (last (replicate 20 ?old)) = time ?old \<and>
      label (last (replicate 20 ?old)) = label ?old"
    by simp
  have guards: "(isModelLoaded ?s \<or> True) \<and> True"
    by simp
  from history_bounded [of "[]" "replicate 20 ?old" ?new ?s True True] changed
  have 1: "pushHistory ?new (replicate 20 ?old) =
      drop (length (replicate 20 ?old) - 19) (replicate 20 ?old) @ [?new]"
    by blast
  from history_bounded [of "[]" "replicate 20 ?old" ?old ?s True True] same
  have 2: "pushHistory ?old (replicate 20 ?old) = replicate 20 ?old"
    by blast
  from history_bounded [of "[]" "replicate 20 ?old" ?new ?s True True] guards
  have 3: "history (startAnalysis True True ?s) = []"
    by blast
  from 1 have 4: "pushHistory ?new (replicate 20 ?old) = replicate 19 ?old @ [?new]"
    by simp
  from 4 2 3 show ?thesis by blast
qed

section \<open>Properties of the task schemas\<close>

text \<open>
  \<open>insertTaskSchema.parse\<close> returns exactly for a title of 1 to 200 characters, a valid
  date, a duration that is absent or a positive integer and an \<open>xpReward\<close> that is absent
  or an integer from 10 to 500. Otherwise it throws a ZodError with every issue of the
  input, not only the first.
\<close>

lemma insertTitleIssues_empty:
  "(insertTitleIssues field = []) =
   (\<exists>t. field = Some t \<and> 1 \<le> length t \<and> length t \<le> 200)"
  by (cases field) (auto simp: insertTitleIssues_def Suc_le_eq)

lemma durationIssues_empty: "(durationIssues d = []) = (is_int d \<and> 0 < d)"
  by (auto simp: durationIssues_def)

lemma xpRewardIssues_empty: "(xpRewardIssues x = []) = (is_int x \<and> 10 \<le> x \<and> x \<le> 500)"
  by (auto simp: xpRewardIssues_def)

lemma optionalIssues_empty:
  "(optionalIssues check field = []) = (\<forall>v. field = Some v \<longrightarrow> check v = [])"
  by (cases field) (simp_all add: optionalIssues_def)

lemma insertTaskIssues_empty:
  "(insertTaskIssues inp = []) =
   ((\<exists>t. in_title inp = Some t \<and> 1 \<le> length t \<and> length t \<le> 200) \<and>
    in_scheduledTime inp \<noteq> None \<and>
    (\<forall>d. in_duration inp = Some d \<longrightarrow> is_int d \<and> 0 < d) \<and>
    (\<forall>x. in_xpReward inp = Some x \<longrightarrow> is_int x \<and> 10 \<le> x \<and> x \<le> 500))"
proof -
  have xp: "(xpRewardIssues (case in_xpReward inp of None \<Rightarrow> 50 | Some x \<Rightarrow> x) = []) =
      (\<forall>x. in_xpReward inp = Some x \<longrightarrow> is_int x \<and> 10 \<le> x \<and> x \<le> 500)"
    by (cases "in_xpReward inp") (simp_all add: xpRewardIssues_empty is_int_def)
  have st: "((case in_scheduledTime inp of
        None \<Rightarrow> [issue ''scheduledTime'' invalid_date]
      | Some st \<Rightarrow> []) = []) = (in_scheduledTime inp \<noteq> None)"
    by (cases "in_scheduledTime inp") simp_all
  show ?thesis
    unfolding insertTaskIssues_def append_is_Nil_conv insertTitleIssues_empty st xp
      optionalIssues_empty durationIssues_empty
    by (rule refl)
qed

lemma insertTaskSchema_parse_returns:
  "(\<exists>v. insertTaskSchema_parse inp = Inr v) = (insertTaskIssues inp = [])"
proof
  assume "\<exists>v. insertTaskSchema_parse inp = Inr v"
  then show "insertTaskIssues inp = []"
    by (auto simp: insertTaskSchema_parse_def split: list.splits option.splits)
next
  assume none: "insertTaskIssues inp = []"
  then obtain t st where "in_title inp = Some t" "in_scheduledTime inp = Some st"
    unfolding insertTaskIssues_empty by auto
  with none show "\<exists>v. insertTaskSchema_parse inp = Inr v"
    by (simp add: insertTaskSchema_parse_def)
qed

lemma insertTaskSchema_parse_throws:
  "insertTaskIssues inp \<noteq> [] \<Longrightarrow>
   insertTaskSchema_parse inp = Inl (ZodError (insertTaskIssues inp))"
  by (simp add: insertTaskSchema_parse_def split: list.splits option.splits)

lemma insertTaskSchema_parse_example:
  "insertTaskSchema_parse
     \<lparr>in_title = Some [], in_description = None, in_scheduledTime = None,
      in_duration = Some 0, in_xpReward = Some 5\<rparr>
   = Inl (ZodError
       [\<lparr>issue_path = ''title'', issue_code = too_small,
         issue_message = Some ''Title is required''\<rparr>,
        \<lparr>issue_path = ''scheduledTime'', issue_code = invalid_date, issue_message = None\<rparr>,
        \<lparr>issue_path = ''duration'', issue_code = too_small, issue_message = None\<rparr>,
        \<lparr>issue_path = ''xpReward'', issue_code = too_small, issue_message = None\<rparr>])"
  by (simp add: insertTaskSchema_parse_def insertTaskIssues_def insertTitleIssues_def
      optionalIssues_def durationIssues_def xpRewardIssues_def is_int_def issue_def)

text \<open>
  \<open>updateTaskSchema.parse\<close> refuses every request body that holds a \<open>scheduledTime\<close>,
  and validated data holds none.
\<close>

lemma updateTaskSchema_parse_scheduledTime:
  "up_scheduledTime upd = Some jsonValue \<Longrightarrow>
   updateTaskSchema_parse upd = Inl (ZodError (updateTaskIssues upd)) \<and>
   issue ''scheduledTime'' invalid_type \<in> set (updateTaskIssues upd)"
  by (simp add: updateTaskSchema_parse_def updateTaskIssues_def split: list.splits)

lemma updateTaskSchema_parse_returns:
  "updateTaskSchema_parse upd = Inr v \<Longrightarrow>
   up_scheduledTime upd = None \<and> ut_scheduledTime v = None"
  by (auto simp: updateTaskSchema_parse_def updateTaskIssues_def
      split: list.splits option.splits)

section \<open>Properties of the task routes\<close>

lemmas action_defs =
  returnE_def throwE_def liftE_def bindE_def tryCatch_def timestampNow_def firestoreCall_def

lemma map_of_update_docs:
  "map_of (map (\<lambda>(k, d). if k = docId then (k, f d) else (k, d)) docs) k' =
     (if k' = docId then map_option f (map_of docs docId) else map_of docs k')"
  by (induction docs) auto

lemma completeTaskHandler_missing:
  assumes "faults w (calls w) = None" and "map_of (tasks w) docId = None"
  shows "completeTaskHandler docId w =
     (Inr \<lparr>statusCode = 404, body = ErrorBody ''Task not found''\<rparr>, w\<lparr>calls := calls w + 1\<rparr>)"
  using assms by (simp add: completeTaskHandler_def completeTaskTry_def getDoc_def action_defs)

lemma completeTaskHandler_found:
  assumes "faults w (calls w) = None" and "faults w (calls w + 1) = None"
    and "map_of (tasks w) docId = Some stored"
  shows "completeTaskHandler docId w =
     (Inr \<lparr>statusCode = 200,
           body = CompletedBody docId
                    (case xpReward stored of None \<Rightarrow> 50 | Some v \<Rightarrow> if v = 0 then 50 else v)\<rparr>,
      w\<lparr>calls := calls w + 2, ticks := ticks w + 1,
        tasks := map (\<lambda>(k, d). if k = docId
                                then (k, d\<lparr>completed := True, updatedAt := clock w (ticks w)\<rparr>)
                                else (k, d)) (tasks w)\<rparr>)"
  using assms
  by (simp add: completeTaskHandler_def completeTaskTry_def getDoc_def updateDoc_def action_defs num_or_def
      cong del: if_weak_cong)

lemma completeTaskHandler_rejected:
  assumes "faults w (calls w) \<noteq> None \<or>
           (map_of (tasks w) docId \<noteq> None \<and> faults w (calls w + 1) \<noteq> None)"
  shows "fst (completeTaskHandler docId w) =
           Inr \<lparr>statusCode = 500, body = ErrorBody ''Failed to complete task''\<rparr>
         \<and> tasks (snd (completeTaskHandler docId w)) = tasks w"
  using assms
  by (auto simp: completeTaskHandler_def completeTaskTry_def getDoc_def updateDoc_def action_defs
      split: option.splits)

text \<open>
  Claim C8, as stated, fails for a stored \<open>xpReward\<close> of 0: the handler answers
  \<open>taskData.xpReward || 50\<close>, which is 50 for 0. The weekly planner stores the
  \<open>xpReward\<close> of the generated plan unvalidated, so such a task can be stored: below
  the planner stores a task with \<open>xpReward\<close> 0 and completing it answers 50.
\<close>

theorem complete_zero_xp_counterexample:
  "map_option xpReward (map_of (tasks (snd (plannerHandler (Some ''u1'')
       (Text (Json [\<lparr>pd_tasks = [\<lparr>pt_title = ''Rest'', pt_description = None,
                                   pt_when = Inr 5000, pt_duration = Some 15,
                                   pt_xpReward = Some 0, pt_category = None\<rparr>]\<rparr>]))
       \<lparr>tasks = [], clock = (\<lambda>n. 1000 + n), ticks = 0, faults = (\<lambda>n. None),
        newIds = (\<lambda>n. ''task1''), calls = 0\<rparr>))) ''task1'') = Some (Some 0)
   \<and> fst (completeTaskHandler ''task1'' (snd (plannerHandler (Some ''u1'')
       (Text (Json [\<lparr>pd_tasks = [\<lparr>pt_title = ''Rest'', pt_description = None,
                                   pt_when = Inr 5000, pt_duration = Some 15,
                                   pt_xpReward = Some 0, pt_category = None\<rparr>]\<rparr>]))
       \<lparr>tasks = [], clock = (\<lambda>n. 1000 + n), ticks = 0, faults = (\<lambda>n. None),
        newIds = (\<lambda>n. ''task1''), calls = 0\<rparr>)))
     = Inr \<lparr>statusCode = 200, body = CompletedBody ''task1'' 50\<rparr>"
proof -
  let ?w = "\<lparr>tasks = [], clock = (\<lambda>n. 1000 + n), ticks = 0, faults = (\<lambda>n. None),
        newIds = (\<lambda>n. ''task1''), calls = 0\<rparr>"
  let ?plan = "Text (Json [\<lparr>pd_tasks = [\<lparr>pt_title = ''Rest'', pt_description = None,
                                   pt_when = Inr 5000, pt_duration = Some 15,
                                   pt_xpReward = Some 0, pt_category = None\<rparr>]\<rparr>])"
  let ?doc = "\<lparr>userId = ''u1'', title = ''Rest'', description = None, scheduledTime = 5000,
      duration = Some 15, xpReward = Some 0, category = None, autoGenerated = True,
      completed = False, notificationSent = False, createdAt = 1000, updatedAt = 1001\<rparr>"
  have planned: "snd (plannerHandler (Some ''u1'') ?plan ?w) =
      ?w\<lparr>tasks := [(''task1'', ?doc)], ticks := 2, calls := 2\<rparr>"
    by (simp add: plannerHandler_def plannerTry_def getUser_def addDoc_def action_defs)
  have stored: "map_of (tasks (?w\<lparr>tasks := [(''task1'', ?doc)], ticks := 2, calls := 2\<rparr>)) ''task1''
      = Some ?doc"
    by simp
  have f1: "faults (?w\<lparr>tasks := [(''task1'', ?doc)], ticks := 2, calls := 2\<rparr>)
      (calls (?w\<lparr>tasks := [(''task1'', ?doc)], ticks := 2, calls := 2\<rparr>)) = None"
    and f2: "faults (?w\<lparr>tasks := [(''task1'', ?doc)], ticks := 2, calls := 2\<rparr>)
      (calls (?w\<lparr>tasks := [(''task1'', ?doc)], ticks := 2, calls := 2\<rparr>) + 1) = None"
    by simp_all
  have "fst (completeTaskHandler ''task1'' (?w\<lparr>tasks := [(''task1'', ?doc)], ticks := 2, calls := 2\<rparr>))
      = Inr \<lparr>statusCode = 200, body = CompletedBody ''task1'' 50\<rparr>"
    by (simp only: completeTaskHandler_found [OF f1 f2 stored]) simp
  with planned stored show ?thesis by simp
qed

text \<open>
  Claim C8, amended. For a completion request whose Firestore calls do not reject: if
  no task with the given id exists, the endpoint answers 404 with the error payload
  \<open>Task not found\<close> and leaves every task as it is; otherwise it sets that task's
  \<open>completed\<close> to true and its \<open>updatedAt\<close> to the clock's reading, leaves the other
  tasks as they are, and answers the task's stored \<open>xpReward\<close> when there is one and
  it is not 0, and 50 otherwise. When a Firestore call rejects, it answers 500 with
  \<open>Failed to complete task\<close> and changes no task.
\<close>

theorem completeTask_behaviour:
  "(faults w (calls w) = None \<and> map_of (tasks w) docId = None \<longrightarrow>
      fst (completeTaskHandler docId w) =
        Inr \<lparr>statusCode = 404, body = ErrorBody ''Task not found''\<rparr> \<and>
      tasks (snd (completeTaskHandler docId w)) = tasks w)
   \<and> (faults w (calls w) = None \<and> faults w (calls w + 1) = None \<and>
       map_of (tasks w) docId = Some stored \<longrightarrow>
      fst (completeTaskHandler docId w) =
        Inr \<lparr>statusCode = 200,
             body = CompletedBody docId
                      (case xpReward stored of None \<Rightarrow> 50
                       | Some v \<Rightarrow> if v = 0 then 50 else v)\<rparr> \<and>
      map_of (tasks (snd (completeTaskHandler docId w))) docId =
        Some (stored\<lparr>completed := True, updatedAt := clock w (ticks w)\<rparr>) \<and>
      (\<forall>k. k \<noteq> docId \<longrightarrow>
         map_of (tasks (snd (completeTaskHandler docId w))) k = map_of (tasks w) k))
   \<and> (faults w (calls w) \<noteq> None \<or>
       (map_of (tasks w) docId \<noteq> None \<and> faults w (calls w + 1) \<noteq> None) \<longrightarrow>
      fst (completeTaskHandler docId w) =
        Inr \<lparr>statusCode = 500, body = ErrorBody ''Failed to complete task''\<rparr> \<and>
      tasks (snd (completeTaskHandler docId w)) = tasks w)"
proof (intro conjI)
  show "faults w (calls w) = None \<and> map_of (tasks w) docId = None \<longrightarrow>
      fst (completeTaskHandler docId w) =
        Inr \<lparr>statusCode = 404, body = ErrorBody ''Task not found''\<rparr> \<and>
      tasks (snd (completeTaskHandler docId w)) = tasks w"
    by (simp add: completeTaskHandler_missing)
next
  show "faults w (calls w) = None \<and> faults w (calls w + 1) = None \<and>
       map_of (tasks w) docId = Some stored \<longrightarrow>
      fst (completeTaskHandler docId w) =
        Inr \<lparr>statusCode = 200,
             body = CompletedBody docId
                      (case xpReward stored of None \<Rightarrow> 50
                       | Some v \<Rightarrow> if v = 0 then 50 else v)\<rparr> \<and>
      map_of (tasks (snd (completeTaskHandler docId w))) docId =
        Some (stored\<lparr>completed := True, updatedAt := clock w (ticks w)\<rparr>) \<and>
      (\<forall>k. k \<noteq> docId \<longrightarrow>
         map_of (tasks (snd (completeTaskHandler docId w))) k = map_of (tasks w) k)"
  proof
    assume a: "faults w (calls w) = None \<and> faults w (calls w + 1) = None \<and>
       map_of (tasks w) docId = Some stored"
    then have run: "completeTaskHandler docId w =
     (Inr \<lparr>statusCode = 200,
           body = CompletedBody docId
                    (case xpReward stored of None \<Rightarrow> 50 | Some v \<Rightarrow> if v = 0 then 50 else v)\<rparr>,
      w\<lparr>calls := calls w + 2, ticks := ticks w + 1,
        tasks := map (\<lambda>(k, d). if k = docId
                                then (k, d\<lparr>completed := True, updatedAt := clock w (ticks w)\<rparr>)
                                else (k, d)) (tasks w)\<rparr>)"
      by (simp add: completeTaskHandler_found)
    from a show "fst (completeTaskHandler docId w) =
        Inr \<lparr>statusCode = 200,
             body = CompletedBody docId
                      (case xpReward stored of None \<Rightarrow> 50
                       | Some v \<Rightarrow> if v = 0 then 50 else v)\<rparr> \<and>
      map_of (tasks (snd (completeTaskHandler docId w))) docId =
        Some (stored\<lparr>completed := True, updatedAt := clock w (ticks w)\<rparr>) \<and>
      (\<forall>k. k \<noteq> docId \<longrightarrow>
         map_of (tasks (snd (completeTaskHandler docId w))) k = map_of (tasks w) k)"
      unfolding run by (simp add: map_of_update_docs)
  qed
next
  show "faults w (calls w) \<noteq> None \<or>
       (map_of (tasks w) docId \<noteq> None \<and> faults w (calls w + 1) \<noteq> None) \<longrightarrow>
      fst (completeTaskHandler docId w) =
        Inr \<lparr>statusCode = 500, body = ErrorBody ''Failed to complete task''\<rparr> \<and>
      tasks (snd (completeTaskHandler docId w)) = tasks w"
    using completeTaskHandler_rejected by blast
qed

theorem completeTask_behaviour_witness:
  "fst (completeTaskHandler ''missing''
      \<lparr>tasks = [(''t1'', \<lparr>userId = ''u1'', title = ''Walk'', description = None,
                 scheduledTime = 5000, duration = Some 15, xpReward = Some 30, category = None,
                 autoGenerated = False, completed = False, notificationSent = False,
                 createdAt = 900, updatedAt = 900\<rparr>)],
       clock = (\<lambda>n. 1000 + n), ticks = 0, faults = (\<lambda>n. None),
       newIds = (\<lambda>n. ''new''), calls = 0\<rparr>)
     = Inr \<lparr>statusCode = 404, body = ErrorBody ''Task not found''\<rparr>
   \<and> fst (completeTaskHandler ''t1''
      \<lparr>tasks = [(''t1'', \<lparr>userId = ''u1'', title = ''Walk'', description = None,
                 scheduledTime = 5000, duration = Some 15, xpReward = Some 30, category = None,
                 autoGenerated = False, completed = False, notificationSent = False,
                 createdAt = 900, updatedAt = 900\<rparr>)],
       clock = (\<lambda>n. 1000 + n), ticks = 0, faults = (\<lambda>n. None),
       newIds = (\<lambda>n. ''new''), calls = 0\<rparr>)
     = Inr \<lparr>statusCode = 200, body = CompletedBody ''t1'' 30\<rparr>
   \<and> map_of (tasks (snd (completeTaskHandler ''t1''
      \<lparr>tasks = [(''t1'', \<lparr>userId = ''u1'', title = ''Walk'', description = None,
                 scheduledTime = 5000, duration = Some 15, xpReward = Some 30, category = None,
                 autoGenerated = False, completed = False, notificationSent = False,
                 createdAt = 900, updatedAt = 900\<rparr>)],
       clock = (\<lambda>n. 1000 + n), ticks = 0, faults = (\<lambda>n. None),
       newIds = (\<lambda>n. ''new''), calls = 0\<rparr>))) ''t1''
     = Some \<lparr>userId = ''u1'', title = ''Walk'', description = None,
                 scheduledTime = 5000, duration = Some 15, xpReward = Some 30, category = None,
                 autoGenerated = False, completed = True, notificationSent = False,
                 createdAt = 900, updatedAt = 1000\<rparr>
   \<and> fst (completeTaskHandler ''t1''
      \<lparr>tasks = [(''t1'', \<lparr>userId = ''u1'', title = ''Walk'', description = None,
                 scheduledTime = 5000, duration = Some 15, xpReward = Some 30, category = None,
                 autoGenerated = False, completed = False, notificationSent = False,
                 createdAt = 900, updatedAt = 900\<rparr>)],
       clock = (\<lambda>n. 1000 + n), ticks = 0,
       faults = (\<lambda>n. Some (Thrown (Some ''unavailable''))),
       newIds = (\<lambda>n. ''new''), calls = 0\<rparr>)
     = Inr \<lparr>statusCode = 500, body = ErrorBody ''Failed to complete task''\<rparr>"
proof -
  let ?d = "\<lparr>userId = ''u1'', title = ''Walk'', description = None,
                 scheduledTime = 5000, duration = Some 15, xpReward = Some 30, category = None,
                 autoGenerated = False, completed = False, notificationSent = False,
                 createdAt = 900, updatedAt = 900\<rparr>"
  let ?w = "\<lparr>tasks = [(''t1'', ?d)], clock = (\<lambda>n. 1000 + n), ticks = 0, faults = (\<lambda>n. None),
       newIds = (\<lambda>n. ''new''), calls = 0\<rparr>"
  let ?wf = "\<lparr>tasks = [(''t1'', ?d)], clock = (\<lambda>n. 1000 + n), ticks = 0,
       faults = (\<lambda>n. Some (Thrown (Some ''unavailable''))),
       newIds = (\<lambda>n. ''new''), calls = 0\<rparr>"
  have missing: "faults ?w (calls ?w) = None \<and> map_of (tasks ?w) ''missing'' = None"
    by simp
  have found: "faults ?w (calls ?w) = None \<and> faults ?w (calls ?w + 1) = None \<and>
       map_of (tasks ?w) ''t1'' = Some ?d"
    by simp
  have rejected: "faults ?wf (calls ?wf) \<noteq> None \<or>
       (map_of (tasks ?wf) ''t1'' \<noteq> None \<and> faults ?wf (calls ?wf + 1) \<noteq> None)"
    by simp
  from completeTask_behaviour [of ?w "''missing''" ?d] missing
  have 1: "fst (completeTaskHandler ''missing'' ?w) =
      Inr \<lparr>statusCode = 404, body = ErrorBody ''Task not found''\<rparr>"
    by blast
  from completeTask_behaviour [of ?w "''t1''" ?d] found
  have 2: "fst (completeTaskHandler ''t1'' ?w) =
        Inr \<lparr>statusCode = 200,
             body = CompletedBody ''t1''
                      (case xpReward ?d of None \<Rightarrow> 50
                       | Some v \<Rightarrow> if v = 0 then 50 else v)\<rparr>"
    and 3: "map_of (tasks (snd (completeTaskHandler ''t1'' ?w))) ''t1'' =
        Some (?d\<lparr>completed := True, updatedAt := clock ?w (ticks ?w)\<rparr>)"
    by blast+
  from completeTask_behaviour [of ?wf "''t1''" ?d] rejected
  have 4: "fst (completeTaskHandler ''t1'' ?wf) =
        Inr \<lparr>statusCode = 500, body = ErrorBody ''Failed to complete task''\<rparr>"
    by blast
  from 2 have r2: "fst (completeTaskHandler ''t1'' ?w) =
      Inr \<lparr>statusCode = 200, body = CompletedBody ''t1'' 30\<rparr>"
    by simp
  from 3 have r3: "map_of (tasks (snd (completeTaskHandler ''t1'' ?w))) ''t1'' =
      Some \<lparr>userId = ''u1'', title = ''Walk'', description = None,
                 scheduledTime = 5000, duration = Some 15, xpReward = Some 30, category = None,
                 autoGenerated = False, completed = True, notificationSent = False,
                 createdAt = 900, updatedAt = 1000\<rparr>"
    by simp
  from 1 r2 r3 4 show ?thesis by blast
qed

section \<open>The documents the creation paths write\<close>

lemma only_adds_returnE: "only_adds P (returnE a)"
  by (simp add: only_adds_def returnE_def)

lemma only_adds_throwE: "only_adds P (throwE e)"
  by (simp add: only_adds_def throwE_def)

lemma only_adds_liftE: "only_adds P (liftE r)"
  by (simp add: only_adds_def liftE_def)

lemma only_adds_timestampNow: "only_adds P timestampNow"
  by (simp add: only_adds_def timestampNow_def)

lemma only_adds_getUser: "only_adds P (getUser u)"
  by (simp add: only_adds_def getUser_def firestoreCall_def split: option.splits)

lemma only_adds_addDoc: "P d \<Longrightarrow> only_adds P (addDoc d)"
  by (auto simp: only_adds_def addDoc_def firestoreCall_def split: option.splits)

lemma only_adds_bindE:
  assumes "only_adds P m" and "\<And>a. only_adds P (f a)"
  shows "only_adds P (bindE m f)"
  unfolding only_adds_def
proof (intro allI ballI)
  fix w kd
  assume kd: "kd \<in> set (tasks (snd (bindE m f w)))"
  obtain r w' where mw: "m w = (r, w')" by (cases "m w")
  have step: "\<forall>x \<in> set (tasks w'). x \<in> set (tasks w) \<or> P (snd x)"
    using assms(1) mw unfolding only_adds_def by (metis snd_conv)
  show "kd \<in> set (tasks w) \<or> P (snd kd)"
  proof (cases r)
    case (Inl e)
    with mw kd have "kd \<in> set (tasks w')" by (simp add: bindE_def)
    with step show ?thesis by blast
  next
    case (Inr a)
    with mw kd have "kd \<in> set (tasks (snd (f a w')))" by (simp add: bindE_def)
    with assms(2) [of a] have "kd \<in> set (tasks w') \<or> P (snd kd)"
      unfolding only_adds_def by blast
    with step show ?thesis by blast
  qed
qed

lemma only_adds_tryCatch:
  assumes "only_adds P m" and "\<And>e. only_adds P (h e)"
  shows "only_adds P (tryCatch m h)"
  unfolding only_adds_def
proof (intro allI ballI)
  fix w kd
  assume kd: "kd \<in> set (tasks (snd (tryCatch m h w)))"
  obtain r w' where mw: "m w = (r, w')" by (cases "m w")
  have step: "\<forall>x \<in> set (tasks w'). x \<in> set (tasks w) \<or> P (snd x)"
    using assms(1) mw unfolding only_adds_def by (metis snd_conv)
  show "kd \<in> set (tasks w) \<or> P (snd kd)"
  proof (cases r)
    case (Inl e)
    with mw kd have "kd \<in> set (tasks (snd (h e w')))" by (simp add: tryCatch_def)
    with assms(2) [of e] have "kd \<in> set (tasks w') \<or> P (snd kd)"
      unfolding only_adds_def by blast
    with step show ?thesis by blast
  next
    case (Inr a)
    with mw kd have "kd \<in> set (tasks w')" by (simp add: tryCatch_def)
    with step show ?thesis by blast
  qed
qed

lemmas only_adds_intros =
  only_adds_returnE only_adds_throwE only_adds_liftE only_adds_timestampNow only_adds_getUser
  only_adds_bindE only_adds_tryCatch

text \<open>
  The three creation paths that validate their input write documents with
  \<open>completed\<close> and \<open>notificationSent\<close> false and \<open>createdAt\<close> equal to
  \<open>updatedAt\<close>: one reading of the clock serves both fields.
\<close>

lemma createTaskHandler_writes:
  "only_adds (\<lambda>d. \<not> completed d \<and> \<not> notificationSent d \<and> createdAt d = updatedAt d)
     (createTaskHandler u taskInput)"
  unfolding createTaskHandler_def createTaskTry_def syncTaskToCalendar_def
  by (intro only_adds_intros only_adds_addDoc) (simp add: newTaskDoc_def)

lemma parseTaskHandler_writes:
  "only_adds (\<lambda>d. \<not> completed d \<and> \<not> notificationSent d \<and> createdAt d = updatedAt d)
     (parseTaskHandler u prompt geminiResponse)"
proof (cases u)
  case None
  then show ?thesis
    unfolding parseTaskHandler_def parseTaskTry_def by (simp add: only_adds_intros)
next
  case (Some uid)
  show ?thesis
  proof (cases "falsy prompt \<or> uid = []")
    case True
    with Some show ?thesis
      unfolding parseTaskHandler_def parseTaskTry_def by (simp add: only_adds_intros)
  next
    case False
    with Some show ?thesis
      unfolding parseTaskHandler_def parseTaskTry_def
      by (simp, intro only_adds_intros only_adds_addDoc) (simp add: newTaskDoc_def)
  qed
qed

lemma createDetectedTask_writes:
  "only_adds (\<lambda>d. \<not> completed d \<and> \<not> notificationSent d \<and> createdAt d = updatedAt d)
     (createDetectedTask u jsonMatch)"
  unfolding createDetectedTask_def
  by (intro only_adds_intros)
     (auto intro!: only_adds_intros only_adds_addDoc simp: newTaskDoc_def
        split: option.split prod.split date_input.split)

lemma detectTask_writes:
  "only_adds (\<lambda>d. \<not> completed d \<and> \<not> notificationSent d \<and> createdAt d = updatedAt d)
     (detectTask u taskDetectionResponse)"
  unfolding detectTask_def
  by (auto intro!: only_adds_intros createDetectedTask_writes
        split: gemini.split extraction.split)

lemma chatHandler_writes:
  "only_adds (\<lambda>d. \<not> completed d \<and> \<not> notificationSent d \<and> createdAt d = updatedAt d)
     (chatHandler msg u taskDetectionResponse geminiResponse)"
  unfolding chatHandler_def chatTry_def
  by (auto intro!: only_adds_intros detectTask_writes)

text \<open>
  The weekly planner writes \<open>completed\<close> and \<open>notificationSent\<close> false too, but takes
  \<open>createdAt\<close> and \<open>updatedAt\<close> from two readings of the clock.
\<close>

lemma planTasks_writes:
  "only_adds (\<lambda>d. \<not> completed d \<and> \<not> notificationSent d) (planTasks u ts created)"
  by (induction ts arbitrary: created)
     (auto intro!: only_adds_intros only_adds_addDoc)

lemma planDays_writes:
  "only_adds (\<lambda>d. \<not> completed d \<and> \<not> notificationSent d) (planDays u days created)"
  by (induction days arbitrary: created)
     (auto intro!: only_adds_intros planTasks_writes)

lemma plannerHandler_writes:
  "only_adds (\<lambda>d. \<not> completed d \<and> \<not> notificationSent d) (plannerHandler u geminiResponse)"
  unfolding plannerHandler_def plannerTry_def
  by (auto intro!: only_adds_intros planDays_writes split: option.split)

text \<open>
  Claim C10 holds for the three validated creation paths and fails for the weekly
  planner, which builds each task with \<open>createdAt: Timestamp.now()\<close> and
  \<open>updatedAt: Timestamp.now()\<close>, two readings of the clock, where the other paths use
  one reading for both. With a clock that advances between the two readings the
  planner writes a document whose \<open>createdAt\<close> (1000) is not its \<open>updatedAt\<close> (1001).
\<close>

theorem planner_timestamps_differ:
  "tasks (snd (plannerHandler (Some ''u1'')
       (Text (Json [\<lparr>pd_tasks = [\<lparr>pt_title = ''Morning Yoga Session'',
                                   pt_description = Some ''15 min gentle yoga'',
                                   pt_when = Inr 5000, pt_duration = Some 15,
                                   pt_xpReward = Some 30, pt_category = Some ''wellness''\<rparr>]\<rparr>]))
       \<lparr>tasks = [], clock = (\<lambda>n. 1000 + n), ticks = 0, faults = (\<lambda>n. None),
        newIds = (\<lambda>n. ''task1''), calls = 0\<rparr>))
   = [(''task1'',
       \<lparr>userId = ''u1'', title = ''Morning Yoga Session'',
        description = Some ''15 min gentle yoga'', scheduledTime = 5000,
        duration = Some 15, xpReward = Some 30, category = Some ''wellness'',
        autoGenerated = True, completed = False, notificationSent = False,
        createdAt = 1000, updatedAt = 1001\<rparr>)]"
  by (simp add: plannerHandler_def plannerTry_def getUser_def addDoc_def action_defs)

section \<open>Errors in the handlers\<close>













































end
